theory Spec2Isabelle
  imports Main "HOL-Library.Sublist"
begin

section \<open>Python values and exceptions\<close>

text \<open>
  The server is Python, and its validators inspect the run-time type of their arguments
  (\<open>isinstance(value, list)\<close>, \<open>isinstance(val, bool)\<close>, \<open>R[i] is False\<close>), so arguments are
  modelled as dynamically typed values: \<open>None\<close>, booleans, unbounded integers, strings, lists and
  dictionaries with string keys (the values JSON can carry, floats left out). A dictionary is
  an association list in insertion order, read through \<open>map_of\<close>.

  A Python \<open>str\<close> is the sequence of its Unicode code points, a \<open>ustr\<close>, so that \<open>length\<close> is
  Python's \<open>len\<close> and a string value can hold any character; \<open>ustr\<close> below turns an ASCII
  literal into one. The keys of a dictionary are only ever compared with the ASCII literals of
  the source and stay \<open>string\<close>s.
\<close>

type_synonym ustr = "nat list"

definition ustr :: "string \<Rightarrow> ustr" where
  "ustr s = map of_char s"

datatype pyval =
    VNone
  | VBool bool
  | VInt int
  | VStr ustr
  | VList "pyval list"
  | VDict "(string \<times> pyval) list"

text \<open>
  Every \<open>raise ValueError(...)\<close> of the source is one constructor of \<open>message\<close>, carrying the
  values its f-string interpolates.
\<close>

datatype message =
    PgrNotObject
  | PgrBothDateAndId
  | PgrDateNotString
  | PgrDateBadFormat
  | PgrIdNotString
  | PgrIdBadLength
  | PgrNeitherDateNorId
  | ListLengthNotN string int
  | NotInRange string int int pyval
  | NotBoolean string
  | BaseNotAllowed string
  | LengthsTotalNotInRange int
  | SeqMinGreaterMax nat pyval pyval
  | ReplacementFalseInfeasible nat int pyval
  | ReplacementItemFalseInfeasible nat int pyval
  | ReplacementListLengthNotN
  | IntegersNNotInRange
  | IntegersMinNotInRange
  | IntegersMaxNotInRange
  | IntegersMinGreaterMax
  | IntegersBaseNotAllowed

datatype error =
    ValueError message
  | TypeError
  | IndexError
  | KeyError
  | AttributeError
  | RuntimeError ustr

section \<open>The randomization-spec validator\<close>

text \<open>
  On a \<open>str\<close> the class \<open>\d\<close> of \<open>re\<close> is every Unicode decimal digit (general category Nd):
  the ten ASCII digits, code points 48 to 57, and beyond ASCII the decimal digits of the other
  scripts (Arabic-Indic, Devanagari, fullwidth, ...). Which code points beyond ASCII are
  decimal digits is a table of the Python interpreter (its Unicode database; it grows with the
  Unicode version), not of this program, and is the parameter \<open>nd\<close>. No other ASCII character
  is a decimal digit.
\<close>

definition is_digit :: "(nat \<Rightarrow> bool) \<Rightarrow> nat \<Rightarrow> bool" where
  "is_digit nd c \<longleftrightarrow> (48 \<le> c \<and> c \<le> 57) \<or> (128 \<le> c \<and> nd c)"

text \<open>\<open>re.fullmatch(r"\d{4}-\d{2}-\d{2}", val)\<close>: the whole string is four digits, a hyphen
  (code point 45), two digits, a hyphen, two digits.\<close>

definition fullmatch_date :: "(nat \<Rightarrow> bool) \<Rightarrow> ustr \<Rightarrow> bool" where
  "fullmatch_date nd val \<longleftrightarrow>
     length val = 10 \<and> list_all (is_digit nd) (take 4 val) \<and> val ! 4 = 45 \<and>
     list_all (is_digit nd) (take 2 (drop 5 val)) \<and> val ! 7 = 45 \<and>
     list_all (is_digit nd) (drop 8 val)"

definition validate_pregenerated_randomization ::
  "(nat \<Rightarrow> bool) \<Rightarrow> pyval \<Rightarrow> error + pyval" where
  "validate_pregenerated_randomization nd pgr =
     (case pgr of
        VNone \<Rightarrow> Inr VNone
      | VDict d \<Rightarrow>
          if map_of d ''date'' \<noteq> None \<and> map_of d ''id'' \<noteq> None
          then Inl (ValueError PgrBothDateAndId)
          else (case map_of d ''date'' of
                  Some val \<Rightarrow>
                    (case val of
                       VStr s \<Rightarrow>
                         if \<not> fullmatch_date nd s then Inl (ValueError PgrDateBadFormat)
                         else Inr (VDict [(''date'', val)])
                     | _ \<Rightarrow> Inl (ValueError PgrDateNotString))
                | None \<Rightarrow>
                    (case map_of d ''id'' of
                       Some val \<Rightarrow>
                         (case val of
                            VStr s \<Rightarrow>
                              if \<not> (1 \<le> length s \<and> length s \<le> 64)
                              then Inl (ValueError PgrIdBadLength)
                              else Inr (VDict [(''id'', val)])
                          | _ \<Rightarrow> Inl (ValueError PgrIdNotString))
                     | None \<Rightarrow> Inl (ValueError PgrNeitherDateNorId)))
      | _ \<Rightarrow> Inl (ValueError PgrNotObject))"



section \<open>Python operations used by the validators\<close>

text \<open>Sequencing in the presence of exceptions: the first \<open>Inl\<close> ends the computation.\<close>

definition ebind :: "error + 'a \<Rightarrow> ('a \<Rightarrow> error + 'b) \<Rightarrow> error + 'b" where
  "ebind m f = (case m of Inl e \<Rightarrow> Inl e | Inr x \<Rightarrow> f x)"

definition ethen :: "error + unit \<Rightarrow> error + 'b \<Rightarrow> error + 'b" where
  "ethen m k = (case m of Inl e \<Rightarrow> Inl e | Inr _ \<Rightarrow> k)"

text \<open>A \<open>for\<close> loop whose body returns nothing and may raise.\<close>

fun for_each :: "('a \<Rightarrow> error + unit) \<Rightarrow> 'a list \<Rightarrow> error + unit" where
  "for_each body [] = Inr ()"
| "for_each body (x # xs) = ethen (body x) (for_each body xs)"

text \<open>The integer an \<open>int\<close> or a \<open>bool\<close> stands for in arithmetic and in comparisons
  (\<open>bool\<close> is a subclass of \<open>int\<close>); every other value has none.\<close>

fun as_num :: "pyval \<Rightarrow> int option" where
  "as_num (VInt i) = Some i"
| "as_num (VBool b) = Some (if b then 1 else 0)"
| "as_num _ = None"

text \<open>\<open>[v] * n\<close> (empty for \<open>n \<le> 0\<close>) and \<open>range(n)\<close>.\<close>

definition py_repeat :: "pyval \<Rightarrow> int \<Rightarrow> pyval" where
  "py_repeat v n = VList (replicate (nat n) v)"

definition py_range :: "int \<Rightarrow> nat list" where
  "py_range n = [0..<nat n]"

definition py_len :: "pyval \<Rightarrow> error + int" where
  "py_len v = (case v of
      VList xs \<Rightarrow> Inr (int (length xs))
    | VStr s \<Rightarrow> Inr (int (length s))
    | VDict d \<Rightarrow> Inr (int (length d))
    | _ \<Rightarrow> Inl TypeError)"

text \<open>\<open>v[i]\<close> for an index \<open>i \<ge> 0\<close>: a dictionary has string keys only, so an integer key is
  missing; numbers, booleans and \<open>None\<close> are not subscriptable.\<close>

definition py_index :: "pyval \<Rightarrow> nat \<Rightarrow> error + pyval" where
  "py_index v i = (case v of
      VList xs \<Rightarrow> if i < length xs then Inr (xs ! i) else Inl IndexError
    | VStr s \<Rightarrow> if i < length s then Inr (VStr [s ! i]) else Inl IndexError
    | VDict d \<Rightarrow> Inl KeyError
    | _ \<Rightarrow> Inl TypeError)"

text \<open>Iteration, as \<open>sum\<close> and \<open>zip\<close> do it: a list yields its elements, a string its
  characters, a dictionary its keys.\<close>

definition py_iter :: "pyval \<Rightarrow> error + pyval list" where
  "py_iter v = (case v of
      VList xs \<Rightarrow> Inr xs
    | VStr s \<Rightarrow> Inr (map (\<lambda>c. VStr [c]) s)
    | VDict d \<Rightarrow> Inr (map (\<lambda>kv. VStr (ustr (fst kv))) d)
    | _ \<Rightarrow> Inl TypeError)"

text \<open>\<open>a - b\<close> is defined on numbers only in this universe of values.\<close>

definition py_sub :: "pyval \<Rightarrow> pyval \<Rightarrow> error + int" where
  "py_sub a b = (case (as_num a, as_num b) of
      (Some x, Some y) \<Rightarrow> Inr (x - y)
    | _ \<Rightarrow> Inl TypeError)"

text \<open>\<open>d < v\<close> and \<open>lo <= v <= hi\<close> for integers \<open>d\<close>, \<open>lo\<close>, \<open>hi\<close>: ordering an integer against
  anything but a number raises \<open>TypeError\<close>.\<close>

definition int_lt :: "int \<Rightarrow> pyval \<Rightarrow> error + bool" where
  "int_lt d v = (case as_num v of Some x \<Rightarrow> Inr (d < x) | None \<Rightarrow> Inl TypeError)"

definition int_between :: "int \<Rightarrow> pyval \<Rightarrow> int \<Rightarrow> error + bool" where
  "int_between lo v hi = (case as_num v of Some x \<Rightarrow> Inr (lo \<le> x \<and> x \<le> hi) | None \<Rightarrow> Inl TypeError)"

text \<open>\<open>a > b\<close> between two numbers. The operations reach it only with values that passed the
  range validator, which are numbers; on other pairs the model answers \<open>TypeError\<close>.\<close>

definition py_gt :: "pyval \<Rightarrow> pyval \<Rightarrow> error + bool" where
  "py_gt a b = (case (as_num a, as_num b) of
      (Some x, Some y) \<Rightarrow> Inr (x > y)
    | _ \<Rightarrow> Inl TypeError)"

text \<open>\<open>sum(xs)\<close>: starts from \<open>0\<close> and adds each element in turn.\<close>

fun sum_from :: "int \<Rightarrow> pyval list \<Rightarrow> error + int" where
  "sum_from acc [] = Inr acc"
| "sum_from acc (x # xs) =
     (case as_num x of None \<Rightarrow> Inl TypeError | Some i \<Rightarrow> sum_from (acc + i) xs)"

definition py_sum :: "pyval \<Rightarrow> error + int" where
  "py_sum v = ebind (py_iter v) (sum_from 0)"

text \<open>Truthiness, for \<open>x or None\<close> and \<open>if data:\<close>.\<close>

definition py_truthy :: "pyval \<Rightarrow> bool" where
  "py_truthy v = (case v of
      VNone \<Rightarrow> False
    | VBool b \<Rightarrow> b
    | VInt i \<Rightarrow> i \<noteq> 0
    | VStr s \<Rightarrow> s \<noteq> []
    | VList xs \<Rightarrow> xs \<noteq> []
    | VDict d \<Rightarrow> d \<noteq> [])"

text \<open>Decimal digits of a natural number, most significant first, as code points.\<close>

fun digits :: "nat \<Rightarrow> nat list" where
  "digits n = (if n < 10 then [48 + n] else digits (n div 10) @ [48 + n mod 10])"

declare digits.simps [simp del]

definition str_nat :: "nat \<Rightarrow> string" where
  "str_nat n = map char_of (digits n)"

definition str_int :: "int \<Rightarrow> ustr" where
  "str_int i = (if i < 0 then 45 # digits (nat (- i)) else digits (nat i))"

section \<open>Domain validators\<close>

type_synonym validator = "pyval \<Rightarrow> string \<Rightarrow> error + unit"

definition validate_int_range :: "pyval \<Rightarrow> string \<Rightarrow> int \<Rightarrow> int \<Rightarrow> error + unit" where
  "validate_int_range val name lo hi =
     ebind (int_between lo val hi)
       (\<lambda>ok. if \<not> ok then Inl (ValueError (NotInRange name lo hi val)) else Inr ())"

definition validate_bool :: validator where
  "validate_bool val name =
     (case val of VBool _ \<Rightarrow> Inr () | _ \<Rightarrow> Inl (ValueError (NotBoolean name)))"

text \<open>\<open>val not in (2, 8, 10, 16)\<close> compares with \<open>==\<close>, which never raises.\<close>

definition validate_base :: validator where
  "validate_base val name =
     (if as_num val \<notin> {Some 2, Some 8, Some 10, Some 16}
      then Inl (ValueError (BaseNotAllowed name)) else Inr ())"

definition validate_lengths_total :: "pyval \<Rightarrow> error + unit" where
  "validate_lengths_total lengths =
     ebind (py_sum lengths)
       (\<lambda>total. if \<not> (1 \<le> total \<and> total \<le> 10000)
                 then Inl (ValueError (LengthsTotalNotInRange total)) else Inr ())"

section \<open>The field normalizer\<close>

text \<open>The loop \<open>for i, v in enumerate(value): list_item_validator(v, f"{name}[{i}]")\<close>.\<close>

fun validate_items :: "validator \<Rightarrow> string \<Rightarrow> nat \<Rightarrow> pyval list \<Rightarrow> error + unit" where
  "validate_items f name i [] = Inr ()"
| "validate_items f name i (v # vs) =
     ethen (f v (name @ ''['' @ str_nat i @ '']'')) (validate_items f name (Suc i) vs)"

definition ensure_scalar_or_list ::
  "string \<Rightarrow> pyval \<Rightarrow> int \<Rightarrow> validator option \<Rightarrow> validator option \<Rightarrow> error + (bool \<times> pyval)" where
  "ensure_scalar_or_list name val n scalar_validator list_item_validator =
     (case val of
        VList xs \<Rightarrow>
          if int (length xs) \<noteq> n then Inl (ValueError (ListLengthNotN name n))
          else ethen (case list_item_validator of
                        None \<Rightarrow> Inr ()
                      | Some f \<Rightarrow> validate_items f name 0 xs)
                 (Inr (False, val))
      | _ \<Rightarrow>
          ethen (case scalar_validator of None \<Rightarrow> Inr () | Some f \<Rightarrow> f val name)
            (Inr (True, val)))"

section \<open>The feasibility checker\<close>

text \<open>The test of one sequence: \<open>domain = MAX[i] - MIN[i] + 1\<close>, then \<open>domain < L[i]\<close>; the
  first argument is the message to raise with.\<close>

definition check_domain ::
  "(nat \<Rightarrow> int \<Rightarrow> pyval \<Rightarrow> message) \<Rightarrow> pyval \<Rightarrow> pyval \<Rightarrow> pyval \<Rightarrow> nat \<Rightarrow> error + unit" where
  "check_domain msg L MINv MAXv i =
     ebind (py_index MAXv i) (\<lambda>mx.
     ebind (py_index MINv i) (\<lambda>mn.
     ebind (py_sub mx mn) (\<lambda>d.
     let domain = d + 1 in
     ebind (py_index L i) (\<lambda>l.
     ebind (int_lt domain l) (\<lambda>small.
     if small then Inl (ValueError (msg i domain l)) else Inr ())))))"

definition validate_no_replacement_feasible ::
  "bool \<Rightarrow> pyval \<Rightarrow> pyval \<Rightarrow> pyval \<Rightarrow> pyval \<Rightarrow> int \<Rightarrow> error + unit" where
  "validate_no_replacement_feasible is_uniform len min_value max_value replacement n =
     (let L = (if is_uniform then py_repeat len n else len);
          MINv = (if is_uniform then py_repeat min_value n else min_value);
          MAXv = (if is_uniform then py_repeat max_value n else max_value);
          R = (if is_uniform then py_repeat replacement n else replacement)
      in case R of
           VBool r \<Rightarrow>
             if r then Inr ()
             else for_each (check_domain ReplacementFalseInfeasible L MINv MAXv) (py_range n)
         | _ \<Rightarrow>
             ebind (py_len R) (\<lambda>k.
               if k \<noteq> n then Inl (ValueError ReplacementListLengthNotN)
               else for_each
                      (\<lambda>i. ebind (py_index R i) (\<lambda>ri.
                              if ri = VBool False
                              then check_domain ReplacementItemFalseInfeasible L MINv MAXv i
                              else Inr ()))
                      (py_range n)))"

section \<open>The operations\<close>

text \<open>
  \<open>_random_org_rpc\<close> reads the credential from the environment and talks to the network; it is
  a parameter \<open>rpc\<close> of the operations (after \<open>nd\<close>, the digit table the randomization-spec
  validator needs), from a method name and a parameter dictionary to a
  result or a \<open>RuntimeError\<close>. An operation returns what the Python returns or raises, and
  beside it the list of calls it made to \<open>rpc\<close>.

  The item count \<open>n\<close>, and \<open>min_value\<close>, \<open>max_value\<close> and \<open>base\<close> of \<open>generate_integers\<close>, are
  annotated \<open>int\<close> and compared with integer literals only; they are integers here. Every
  argument whose form or type the code itself inspects, or only passes on, is a \<open>pyval\<close>.
\<close>

type_synonym params = "(string \<times> pyval) list"
type_synonym rpc_call = "string \<times> params"
type_synonym rpc_fun = "string \<Rightarrow> params \<Rightarrow> error + pyval"

text \<open>\<open>d[k]\<close> and \<open>d.get(k)\<close> for a string key.\<close>

definition py_getitem :: "pyval \<Rightarrow> string \<Rightarrow> error + pyval" where
  "py_getitem v k = (case v of
      VDict d \<Rightarrow> (case map_of d k of Some x \<Rightarrow> Inr x | None \<Rightarrow> Inl KeyError)
    | _ \<Rightarrow> Inl TypeError)"

definition py_get :: "pyval \<Rightarrow> string \<Rightarrow> error + pyval" where
  "py_get v k = (case v of
      VDict d \<Rightarrow> Inr (case map_of d k of Some x \<Rightarrow> x | None \<Rightarrow> VNone)
    | _ \<Rightarrow> Inl AttributeError)"

definition py_or_none :: "pyval \<Rightarrow> pyval" where
  "py_or_none v = (if py_truthy v then v else VNone)"

text \<open>\<open>if pgr is not None: params["pregeneratedRandomization"] = pgr\<close>.\<close>

definition with_pgr :: "params \<Rightarrow> pyval \<Rightarrow> params" where
  "with_pgr ps pgr = (if pgr \<noteq> VNone then ps @ [(''pregeneratedRandomization'', pgr)] else ps)"

text \<open>The quota fields every operation copies from the result.\<close>

definition quota_fields :: "pyval \<Rightarrow> error + params" where
  "quota_fields result =
     ebind (py_get result ''bitsUsed'') (\<lambda>bu.
     ebind (py_get result ''bitsLeft'') (\<lambda>bl.
     ebind (py_get result ''requestsLeft'') (\<lambda>rl.
     ebind (py_get result ''advisoryDelay'') (\<lambda>ad.
     Inr [(''bitsUsed'', bu), (''bitsLeft'', bl), (''requestsLeft'', rl),
          (''advisoryDelay'', ad)]))))"

definition random_data :: "pyval \<Rightarrow> error + pyval" where
  "random_data result = ebind (py_getitem result ''random'') (\<lambda>r. py_getitem r ''data'')"

subsection \<open>\<open>generate_integers\<close>\<close>

text \<open>Everything \<open>generate_integers\<close> does before it calls \<open>_random_org_rpc\<close>: the checks, and
  the parameter dictionary. \<open>replacement\<close> is only passed on, whatever it is.\<close>

definition generate_integers_request ::
  "(nat \<Rightarrow> bool) \<Rightarrow> int \<Rightarrow> int \<Rightarrow> int \<Rightarrow> pyval \<Rightarrow> int \<Rightarrow> pyval
     \<Rightarrow> error + (params \<times> pyval)" where
  "generate_integers_request nd n min_value max_value replacement base pregeneratedRandomization =
     (if \<not> (1 \<le> n \<and> n \<le> 10000) then Inl (ValueError IntegersNNotInRange)
      else if \<not> (- 1000000000 \<le> min_value \<and> min_value \<le> 1000000000)
        then Inl (ValueError IntegersMinNotInRange)
      else if \<not> (- 1000000000 \<le> max_value \<and> max_value \<le> 1000000000)
        then Inl (ValueError IntegersMaxNotInRange)
      else if min_value > max_value then Inl (ValueError IntegersMinGreaterMax)
      else if base \<notin> {2, 8, 10, 16} then Inl (ValueError IntegersBaseNotAllowed)
      else
        ebind (validate_pregenerated_randomization nd pregeneratedRandomization) (\<lambda>pgr.
        Inr (with_pgr [(''n'', VInt n), (''min'', VInt min_value), (''max'', VInt max_value),
                       (''replacement'', replacement), (''base'', VInt base)] pgr,
             pgr)))"

definition generate_integers ::
  "(nat \<Rightarrow> bool) \<Rightarrow> rpc_fun \<Rightarrow> int \<Rightarrow> int \<Rightarrow> int \<Rightarrow> pyval \<Rightarrow> int \<Rightarrow> pyval
     \<Rightarrow> (error + pyval) \<times> rpc_call list" where
  "generate_integers nd rpc n min_value max_value replacement base pregeneratedRandomization =
     (case generate_integers_request nd n min_value max_value replacement base
             pregeneratedRandomization of
        Inl e \<Rightarrow> (Inl e, [])
      | Inr (ps, pgr) \<Rightarrow>
          (ebind (rpc ''generateIntegers'' ps) (\<lambda>result.
           ebind (random_data result) (\<lambda>data_values.
           ebind (quota_fields result) (\<lambda>quota.
           Inr (VDict ([(''values'', data_values), (''base'', VInt base),
                        (''replacement'', replacement),
                        (''pregeneratedRandomization'', py_or_none pgr)] @ quota))))),
           [(''generateIntegers'', ps)]))"

subsection \<open>\<open>generate_integer_sequences\<close>\<close>

definition as_list :: "int \<Rightarrow> pyval \<Rightarrow> bool \<Rightarrow> pyval" where
  "as_list n val is_scalar = (if is_scalar then py_repeat val n else val)"

text \<open>The loop \<open>for i, (mn, mx) in enumerate(zip(min_list, max_list))\<close>.\<close>

fun check_min_max :: "nat \<Rightarrow> (pyval \<times> pyval) list \<Rightarrow> error + unit" where
  "check_min_max i [] = Inr ()"
| "check_min_max i ((mn, mx) # rest) =
     ebind (py_gt mn mx) (\<lambda>gt.
       if gt then Inl (ValueError (SeqMinGreaterMax i mn mx))
       else check_min_max (Suc i) rest)"

text \<open>\<open>total = n * int(length_v)\<close>; \<open>length_v\<close> has passed the range validator here, so it is
  a number.\<close>

definition validate_scalar_total :: "int \<Rightarrow> pyval \<Rightarrow> error + unit" where
  "validate_scalar_total n length_v =
     (case as_num length_v of
        None \<Rightarrow> Inl TypeError
      | Some l \<Rightarrow>
          let total = n * l in
          if \<not> (1 \<le> total \<and> total \<le> 10000)
          then Inl (ValueError (LengthsTotalNotInRange total)) else Inr ())"

definition generate_integer_sequences_request ::
  "(nat \<Rightarrow> bool) \<Rightarrow> int \<Rightarrow> pyval \<Rightarrow> pyval \<Rightarrow> pyval \<Rightarrow> pyval \<Rightarrow> pyval \<Rightarrow> pyval
     \<Rightarrow> error + (params \<times> pyval \<times> pyval \<times> pyval)" where
  "generate_integer_sequences_request nd n len min_value max_value replacement base
       pregeneratedRandomization =
     ethen (validate_int_range (VInt n) ''n'' 1 1000) (
     ebind (ensure_scalar_or_list ''length'' len n
              (Some (\<lambda>v nm. validate_int_range v nm 1 10000))
              (Some (\<lambda>v nm. validate_int_range v nm 1 10000))) (\<lambda>(is_len_scalar, length_v).
     ethen (if is_len_scalar then validate_scalar_total n length_v
            else validate_lengths_total length_v) (
     ebind (ensure_scalar_or_list ''min'' min_value n
              (Some (\<lambda>v nm. validate_int_range v nm (- 1000000000) 1000000000))
              (Some (\<lambda>v nm. validate_int_range v nm (- 1000000000) 1000000000)))
       (\<lambda>(is_min_scalar, min_v).
     ebind (ensure_scalar_or_list ''max'' max_value n
              (Some (\<lambda>v nm. validate_int_range v nm (- 1000000000) 1000000000))
              (Some (\<lambda>v nm. validate_int_range v nm (- 1000000000) 1000000000)))
       (\<lambda>(is_max_scalar, max_v).
     ebind (py_iter (as_list n min_v is_min_scalar)) (\<lambda>min_list.
     ebind (py_iter (as_list n max_v is_max_scalar)) (\<lambda>max_list.
     ethen (check_min_max 0 (zip min_list max_list)) (
     ebind (ensure_scalar_or_list ''replacement'' replacement n
              (Some validate_bool) (Some validate_bool)) (\<lambda>(is_rep_scalar, rep_v).
     ebind (ensure_scalar_or_list ''base'' base n
              (Some validate_base) (Some validate_base)) (\<lambda>(is_base_scalar, base_v).
     ebind (validate_pregenerated_randomization nd pregeneratedRandomization) (\<lambda>pgr.
     ethen (validate_no_replacement_feasible is_len_scalar length_v min_v max_v rep_v n) (
     Inr (with_pgr [(''n'', VInt n), (''length'', length_v), (''min'', min_v),
                    (''max'', max_v), (''replacement'', rep_v), (''base'', base_v)] pgr,
          base_v, rep_v, pgr)))))))))))))"

definition generate_integer_sequences ::
  "(nat \<Rightarrow> bool) \<Rightarrow> rpc_fun \<Rightarrow> int \<Rightarrow> pyval \<Rightarrow> pyval \<Rightarrow> pyval \<Rightarrow> pyval \<Rightarrow> pyval \<Rightarrow> pyval
     \<Rightarrow> (error + pyval) \<times> rpc_call list" where
  "generate_integer_sequences nd rpc n len min_value max_value replacement base
       pregeneratedRandomization =
     (case generate_integer_sequences_request nd n len min_value max_value replacement base
             pregeneratedRandomization of
        Inl e \<Rightarrow> (Inl e, [])
      | Inr (ps, base_v, rep_v, pgr) \<Rightarrow>
          (ebind (rpc ''generateIntegerSequences'' ps) (\<lambda>result.
           ebind (random_data result) (\<lambda>sequences.
           ebind (quota_fields result) (\<lambda>quota.
           Inr (VDict ([(''sequences'', sequences), (''base'', base_v),
                        (''replacement'', rep_v),
                        (''pregeneratedRandomization'', py_or_none pgr)] @ quota))))),
           [(''generateIntegerSequences'', ps)]))"

section \<open>The error mapper\<close>

text \<open>
  The mapper's texts are Chinese, written here code point by code point. An f-string formats
  \<open>None\<close>, booleans, integers and strings as below; how Python prints a list or a dictionary (its
  \<open>repr\<close>, with the quoting of the strings inside) is not part of this program and is the
  parameter \<open>container_str\<close>.
\<close>

definition py_str :: "(pyval \<Rightarrow> ustr) \<Rightarrow> pyval \<Rightarrow> ustr" where
  "py_str container_str v = (case v of
      VNone \<Rightarrow> ustr ''None''
    | VBool b \<Rightarrow> (if b then ustr ''True'' else ustr ''False'')
    | VInt i \<Rightarrow> str_int i
    | VStr s \<Rightarrow> s
    | _ \<Rightarrow> container_str v)"

text \<open>The table \<open>hints\<close>, in the source's order.\<close>

definition hints :: "(int \<times> ustr) list" where
  "hints =
   [(400, [35831, 27714, 21442, 25968, 19981, 21512, 27861, 65288] @ ustr ''400'' @
          [65289, 12290, 35831, 26816, 26597] @ ustr '' n/length/min/max/base '' @
          [31561, 26159, 21542, 22312, 25991, 26723, 35201, 27714, 30340, 33539, 22260,
           20869, 12290]),
    (401, [35748, 35777, 22833, 36133, 65288] @ ustr ''401'' @
          [65289, 12290, 35831, 26816, 26597] @ ustr '' RANDOM_ORG_API_KEY '' @
          [26159, 21542, 27491, 30830, 12289, 26159, 21542, 24050, 22312] @
          ustr '' .env '' @ [20013, 21152, 36733, 12290]),
    (402, [39069, 24230, 19981, 36275, 65288] @ ustr ''402'' @ [65289, 12290] @
          ustr ''bitsLeft '' @ [25110] @ ustr '' requestsLeft '' @
          [29992, 23613, 65292, 35831, 26356, 25442] @ ustr ''/'' @ [21319, 32423] @
          ustr '' API Key '' @ [25110, 31245, 21518, 20877, 35797, 12290]),
    (403, [26435, 38480, 21463, 38480, 65288] @ ustr ''403'' @
          [65289, 12290, 21487, 33021, 26159] @ ustr '' Key '' @
          [26435, 38480, 19981, 36275, 25110, 34987, 38480, 21046, 26469, 28304, 12290]),
    (413, [35831, 27714, 36807, 22823, 65288] @ ustr ''413'' @
          [65289, 12290, 35831, 20943, 23567] @ ustr '' n '' @ [25110] @
          ustr '' length '' @ [24635, 21644, 65292, 25110, 25286, 20998, 35831, 27714, 12290]),
    (429, [35831, 27714, 36807, 20110, 39057, 32321, 65288] @ ustr ''429'' @
          [65289, 12290, 35831, 25353, 29031] @ ustr '' advisoryDelay '' @
          [20570, 36864, 36991, 37325, 35797, 12290]),
    (503, [26381, 21153, 26242, 19981, 21487, 29992, 65288] @ ustr ''503'' @
          [65289, 12290, 35831, 31245, 21518, 37325, 35797, 65307, 21487, 23454, 29616,
           25351, 25968, 36864, 36991, 12290]),
    (- 32600, ustr ''JSON-RPC '' @ [35831, 27714, 26684, 24335, 38169, 35823, 65288] @
          ustr ''-32600'' @ [65289, 12290, 35831, 26816, 26597] @
          ustr '' method/params/id '' @ [23383, 27573, 12290]),
    (- 32601, ustr ''JSON-RPC '' @ [26410, 30693, 26041, 27861, 65288] @ ustr ''-32601'' @
          [65289, 12290] @ ustr ''method '' @ [21517, 31216, 26159, 21542, 27491, 30830, 65311]),
    (- 32602, ustr ''JSON-RPC '' @ [21442, 25968, 38750, 27861, 65288] @ ustr ''-32602'' @
          [65289, 12290, 35831, 26816, 26597, 21508, 23383, 27573, 31867, 22411, 19982,
           21462, 20540, 33539, 22260, 12290]),
    (- 32603, ustr ''JSON-RPC '' @ [20869, 37096, 38169, 35823, 65288] @ ustr ''-32603'' @
          [65289, 12290, 35831, 31245, 21518, 37325, 35797, 25110, 32852, 31995, 23448,
           26041, 25903, 25345, 12290])]"

text \<open>The default of \<open>hints.get\<close>: the f-string around \<open>{code}\<close> and \<open>{message}\<close>.\<close>

definition fallback :: "(pyval \<Rightarrow> ustr) \<Rightarrow> pyval \<Rightarrow> ustr \<Rightarrow> ustr" where
  "fallback container_str code message =
     [35843, 29992, 22833, 36133, 65288, 20195, 30721, 65306] @ py_str container_str code @
     [65289, 12290, 21407, 22987, 20449, 24687, 65306] @ message"

text \<open>A dictionary hashes its key: a list or a dictionary as key raises \<open>TypeError\<close>.\<close>

definition hashable :: "pyval \<Rightarrow> bool" where
  "hashable v = (case v of VList _ \<Rightarrow> False | VDict _ \<Rightarrow> False | _ \<Rightarrow> True)"

text \<open>\<open>hints.get(code, default)\<close>: the keys are integers, which a number equals by value
  (\<open>True == 1\<close>) and nothing else does.\<close>

definition hints_get :: "pyval \<Rightarrow> ustr \<Rightarrow> error + ustr" where
  "hints_get code dflt =
     (if \<not> hashable code then Inl TypeError
      else case as_num code of
             None \<Rightarrow> Inr dflt
           | Some c \<Rightarrow> (case map_of hints c of Some h \<Rightarrow> Inr h | None \<Rightarrow> Inr dflt))"

text \<open>\<open>if key in data: extra.append(f"...{data[key]}...")\<close>, as the list of clauses it adds.\<close>

definition clause :: "(pyval \<Rightarrow> ustr) \<Rightarrow> params \<Rightarrow> string \<Rightarrow> ustr \<Rightarrow> ustr \<Rightarrow> ustr list" where
  "clause container_str d key pre post =
     (case map_of d key of
        Some v \<Rightarrow> [pre @ py_str container_str v @ post]
      | None \<Rightarrow> [])"

text \<open>\<open>sep.join(parts)\<close>.\<close>

fun join :: "ustr \<Rightarrow> ustr list \<Rightarrow> ustr" where
  "join sep [] = []"
| "join sep [x] = x"
| "join sep (x # y # ys) = x @ sep @ join sep (y # ys)"

definition map_random_org_error ::
  "(pyval \<Rightarrow> ustr) \<Rightarrow> pyval \<Rightarrow> ustr \<Rightarrow> params option \<Rightarrow> error + ustr" where
  "map_random_org_error container_str code message data =
     ebind (hints_get code (fallback container_str code message)) (\<lambda>base_msg.
     let extra =
           (case data of
              None \<Rightarrow> []
            | Some d \<Rightarrow>
                if d = [] then []
                else clause container_str d ''advisoryDelay''
                       ([24314, 35758, 31561, 24453] @ ustr '' '')
                       (ustr '' ms '' @ [21518, 20877, 35797, 12290])
                   @ clause container_str d ''bitsLeft''
                       ([24403, 21069] @ ustr '' bitsLeft='') [12290]
                   @ clause container_str d ''requestsLeft''
                       ([24403, 21069] @ ustr '' requestsLeft='') [12290])
     in Inr (join (ustr '' '') ([base_msg] @ extra)))"

section \<open>The feasibility rule as the specification words it\<close>

text \<open>
  Each of the four fields is brought to a per-sequence list of size \<open>n\<close> on its own, a scalar
  replicated and a list kept; sequence \<open>i\<close> is infeasible when its own replacement flag is
  \<open>False\<close> and \<open>max[i] - min[i] + 1 < length[i]\<close>; the check fails when some sequence is
  infeasible.
\<close>

definition per_sequence :: "pyval \<Rightarrow> int \<Rightarrow> pyval list" where
  "per_sequence field n = (case field of VList xs \<Rightarrow> xs | _ \<Rightarrow> replicate (nat n) field)"

definition infeasible_sequence ::
  "pyval \<Rightarrow> pyval \<Rightarrow> pyval \<Rightarrow> pyval \<Rightarrow> int \<Rightarrow> nat \<Rightarrow> bool" where
  "infeasible_sequence len min_value max_value replacement n i \<longleftrightarrow>
     per_sequence replacement n ! i = VBool False \<and>
     (case (as_num (per_sequence max_value n ! i), as_num (per_sequence min_value n ! i),
            as_num (per_sequence len n ! i)) of
        (Some mx, Some mn, Some l) \<Rightarrow> mx - mn + 1 < l
      | _ \<Rightarrow> False)"

definition spec_infeasible :: "pyval \<Rightarrow> pyval \<Rightarrow> pyval \<Rightarrow> pyval \<Rightarrow> int \<Rightarrow> bool" where
  "spec_infeasible len min_value max_value replacement n \<longleftrightarrow>
     list_ex (infeasible_sequence len min_value max_value replacement n) (py_range n)"

section \<open>Auxiliary notions for the properties\<close>

text \<open>The two errors the feasibility checker raises for an impossible draw.\<close>

fun is_infeasible_error :: "error \<Rightarrow> bool" where
  "is_infeasible_error (ValueError (ReplacementFalseInfeasible i d l)) = True"
| "is_infeasible_error (ValueError (ReplacementItemFalseInfeasible i d l)) = True"
| "is_infeasible_error _ = False"

text \<open>A computation that does not end in one of them.\<close>

definition never_infeasible :: "error + 'a \<Rightarrow> bool" where
  "never_infeasible m = (case m of Inl e \<Rightarrow> \<not> is_infeasible_error e | Inr _ \<Rightarrow> True)"

section \<open>The appended clauses as the specification words them\<close>

text \<open>
  One clause for each of the keys \<open>advisoryDelay\<close>, \<open>bitsLeft\<close>, \<open>requestsLeft\<close> that the data
  carries, in that order, each after a space.
\<close>

definition present_entries :: "params option \<Rightarrow> (string \<times> pyval) list" where
  "present_entries data =
     (case data of
        None \<Rightarrow> []
      | Some d \<Rightarrow>
          concat (map (\<lambda>k. case map_of d k of Some v \<Rightarrow> [(k, v)] | None \<Rightarrow> [])
                    [''advisoryDelay'', ''bitsLeft'', ''requestsLeft'']))"

definition clause_text :: "(pyval \<Rightarrow> ustr) \<Rightarrow> string \<Rightarrow> pyval \<Rightarrow> ustr" where
  "clause_text container_str k v =
     (if k = ''advisoryDelay''
      then [24314, 35758, 31561, 24453] @ ustr '' '' @ py_str container_str v @
           ustr '' ms '' @ [21518, 20877, 35797, 12290]
      else if k = ''bitsLeft''
      then [24403, 21069] @ ustr '' bitsLeft='' @ py_str container_str v @ [12290]
      else [24403, 21069] @ ustr '' requestsLeft='' @ py_str container_str v @ [12290])"

definition appended_clauses :: "(pyval \<Rightarrow> ustr) \<Rightarrow> params option \<Rightarrow> ustr" where
  "appended_clauses container_str data =
     concat (map (\<lambda>(k, v). ustr '' '' @ clause_text container_str k v) (present_entries data))"

text \<open>A table for closed examples: the fullwidth digits U+FF10 to U+FF19, decimal digits in
  every version of Unicode.\<close>

definition fullwidth_digit :: "nat \<Rightarrow> bool" where
  "fullwidth_digit c \<longleftrightarrow> 65296 \<le> c \<and> c \<le> 65305"

text \<open>Python prints the empty list as \<open>[]\<close> and the empty dictionary as \<open>{}\<close>; the closed
  examples need no more of \<open>container_str\<close>.\<close>

definition empty_container_str :: "pyval \<Rightarrow> ustr" where
  "empty_container_str v = (case v of VDict _ \<Rightarrow> ustr ''{}'' | _ \<Rightarrow> ustr ''[]'')"

section \<open>Properties\<close>

subsection \<open>The randomization-spec validator\<close>

lemma length_ustr: "length (ustr s) = length s"
  by (simp add: ustr_def)

lemma fullmatch_date_example: "fullmatch_date nd (ustr ''2024-06-01'')"
  by (simp add: fullmatch_date_def is_digit_def ustr_def)




text \<open>
  Claim C10. Keys other than \<open>date\<close> and \<open>id\<close> are ignored: a dictionary with a well-formed
  \<open>date\<close> and no \<open>id\<close> yields the dictionary holding only the \<open>date\<close> entry, whatever else it
  holds; likewise for \<open>id\<close>; a dictionary with neither key fails. In general the outcome is
  determined by what is stored under \<open>date\<close> and \<open>id\<close> alone.
\<close>

theorem pgr_ignores_unrecognized_keys:
  "(map_of d ''date'' = Some (VStr s) \<and> map_of d ''id'' = None \<and> fullmatch_date nd s \<longrightarrow>
      validate_pregenerated_randomization nd (VDict d) = Inr (VDict [(''date'', VStr s)]))
   \<and> (map_of d ''id'' = Some (VStr s) \<and> map_of d ''date'' = None \<and>
        1 \<le> length s \<and> length s \<le> 64 \<longrightarrow>
      validate_pregenerated_randomization nd (VDict d) = Inr (VDict [(''id'', VStr s)]))
   \<and> (map_of d ''date'' = None \<and> map_of d ''id'' = None \<longrightarrow>
      validate_pregenerated_randomization nd (VDict d) = Inl (ValueError PgrNeitherDateNorId))
   \<and> (map_of d ''date'' = map_of d' ''date'' \<and> map_of d ''id'' = map_of d' ''id'' \<longrightarrow>
      validate_pregenerated_randomization nd (VDict d)
        = validate_pregenerated_randomization nd (VDict d'))"
  by (auto simp: validate_pregenerated_randomization_def split: option.splits)

theorem pgr_ignores_unrecognized_keys_witness:
  "validate_pregenerated_randomization fullwidth_digit
      (VDict [(''note'', VInt 1), (''date'', VStr (ustr ''2024-06-01'')), (''extra'', VNone)])
     = Inr (VDict [(''date'', VStr (ustr ''2024-06-01''))])
   \<and> validate_pregenerated_randomization fullwidth_digit
        (VDict [(''note'', VInt 1), (''id'', VStr (ustr ''abc''))])
     = Inr (VDict [(''id'', VStr (ustr ''abc''))])
   \<and> validate_pregenerated_randomization fullwidth_digit
        (VDict [(''note'', VInt 1), (''extra'', VNone)])
     = Inl (ValueError PgrNeitherDateNorId)
   \<and> validate_pregenerated_randomization fullwidth_digit
        (VDict [(''note'', VInt 1), (''date'', VStr (ustr ''2024-06-01'')), (''extra'', VNone)])
     = validate_pregenerated_randomization fullwidth_digit
         (VDict [(''date'', VStr (ustr ''2024-06-01''))])"
  using pgr_ignores_unrecognized_keys
          [where nd = fullwidth_digit
             and d = "[(''note'', VInt 1), (''date'', VStr (ustr ''2024-06-01'')),
                       (''extra'', VNone)]"
             and s = "ustr ''2024-06-01''"
             and d' = "[(''date'', VStr (ustr ''2024-06-01''))]"]
        pgr_ignores_unrecognized_keys
          [where nd = fullwidth_digit
             and d = "[(''note'', VInt 1), (''id'', VStr (ustr ''abc''))]"
             and s = "ustr ''abc''" and d' = "[]"]
        pgr_ignores_unrecognized_keys
          [where nd = fullwidth_digit
             and d = "[(''note'', VInt 1), (''extra'', VNone)]" and s = "[]" and d' = "[]"]
  by (simp add: fullmatch_date_example validate_pregenerated_randomization_def length_ustr)

subsection \<open>The field normalizer\<close>

lemma validate_items_replicate:
  "(\<And>nm. f v nm = Inr ()) \<Longrightarrow> validate_items f name i (replicate k v) = Inr ()"
  by (induction k arbitrary: i) (simp_all add: ethen_def)

text \<open>
  Claim C8. Let \<open>v\<close> be a scalar (not a list) that the validator \<open>f\<close> accepts under every field
  name, and \<open>n\<close> an item count. Normalizing \<open>v\<close> succeeds and returns \<open>v\<close> unchanged, flagged
  scalar; normalizing \<open>[v] * n\<close> succeeds and returns that list unchanged, flagged list; expanded
  per item (\<open>_as_list\<close>) the two results are the same list. A list whose length is not \<open>n\<close>
  fails with the length error whatever the validators are, so none of them decides the outcome.
\<close>

theorem ensure_scalar_or_list_forms:
  assumes "\<forall>xs. v \<noteq> VList xs" and "\<forall>nm. f v nm = Inr ()" and "0 \<le> n"
  shows "ensure_scalar_or_list name v n (Some f) lv = Inr (True, v)
       \<and> ensure_scalar_or_list name (py_repeat v n) n sv (Some f) = Inr (False, py_repeat v n)
       \<and> as_list n v True = as_list n (py_repeat v n) False
       \<and> (\<forall>xs sv' lv'. int (length xs) \<noteq> n \<longrightarrow>
            ensure_scalar_or_list name (VList xs) n sv' lv'
              = Inl (ValueError (ListLengthNotN name n)))"
proof -
  have scalar: "ensure_scalar_or_list name v n (Some f) lv = Inr (True, v)"
    using assms(1,2) by (cases v) (simp_all add: ensure_scalar_or_list_def ethen_def)
  have items: "validate_items f name 0 (replicate (nat n) v) = Inr ()"
    using assms(2) by (simp add: validate_items_replicate)
  have listform:
    "ensure_scalar_or_list name (py_repeat v n) n sv (Some f) = Inr (False, py_repeat v n)"
    using assms(3) items by (simp add: ensure_scalar_or_list_def py_repeat_def ethen_def)
  have same: "as_list n v True = as_list n (py_repeat v n) False"
    by (simp add: as_list_def)
  have shape: "\<forall>xs sv' lv'. int (length xs) \<noteq> n \<longrightarrow>
            ensure_scalar_or_list name (VList xs) n sv' lv'
              = Inl (ValueError (ListLengthNotN name n))"
    by (simp add: ensure_scalar_or_list_def)
  from scalar listform same shape show ?thesis by blast
qed

lemma int_range_accepts: "\<forall>nm. validate_int_range (VInt 5) nm 1 10000 = Inr ()"
  by (simp add: validate_int_range_def int_between_def ebind_def)

theorem ensure_scalar_or_list_forms_witness:
  "ensure_scalar_or_list ''length'' (VInt 5) 3
       (Some (\<lambda>v nm. validate_int_range v nm 1 10000)) None = Inr (True, VInt 5)
   \<and> ensure_scalar_or_list ''length'' (VList [VInt 5, VInt 5, VInt 5]) 3
       None (Some (\<lambda>v nm. validate_int_range v nm 1 10000))
       = Inr (False, VList [VInt 5, VInt 5, VInt 5])
   \<and> as_list 3 (VInt 5) True = as_list 3 (VList [VInt 5, VInt 5, VInt 5]) False
   \<and> ensure_scalar_or_list ''length'' (VList [VInt 5, VInt 5]) 3
       None (Some (\<lambda>v nm. validate_int_range v nm 1 10000))
       = Inl (ValueError (ListLengthNotN ''length'' 3))"
proof -
  have rep: "py_repeat (VInt 5) 3 = VList [VInt 5, VInt 5, VInt 5]"
    by (simp add: py_repeat_def numeral_3_eq_3)
  have scalar: "\<forall>xs. VInt 5 \<noteq> VList xs" by simp
  show ?thesis
    using ensure_scalar_or_list_forms
            [of "VInt 5" "\<lambda>v nm. validate_int_range v nm 1 10000" 3 "''length''" None None,
             OF scalar int_range_accepts]
    by (simp add: rep)
qed

subsection \<open>The feasibility checker\<close>

lemma for_each_all_ok:
  "(\<And>x. x \<in> set xs \<Longrightarrow> body x = Inr ()) \<Longrightarrow> for_each body xs = Inr ()"
  by (induction xs) (simp_all add: ethen_def)

lemma py_range_pos: "1 \<le> n \<Longrightarrow> py_range n = 0 # [1..<nat n]"
  by (simp add: py_range_def upt_conv_Cons)

lemma py_index_repeat: "i < nat n \<Longrightarrow> py_index (py_repeat v n) i = Inr v"
  by (simp add: py_index_def py_repeat_def)

lemma feasible_scalar_true:
  "0 \<le> n \<Longrightarrow> validate_no_replacement_feasible u len mn mx (VBool True) n = Inr ()"
proof (cases u)
  case False
  then show ?thesis by (simp add: validate_no_replacement_feasible_def)
next
  case True
  assume n: "0 \<le> n"
  have body: "for_each
      (\<lambda>i. ebind (py_index (py_repeat (VBool True) n) i) (\<lambda>ri.
              if ri = VBool False
              then check_domain ReplacementItemFalseInfeasible (py_repeat len n)
                     (py_repeat mn n) (py_repeat mx n) i
              else Inr ()))
      (py_range n) = Inr ()"
    by (rule for_each_all_ok) (simp add: py_range_def py_index_repeat ebind_def)
  show ?thesis using True n body[unfolded py_repeat_def]
    by (simp add: validate_no_replacement_feasible_def Let_def py_len_def ebind_def
          py_repeat_def)
qed

lemma never_ebind:
  "never_infeasible m \<Longrightarrow> (\<And>x. m = Inr x \<Longrightarrow> never_infeasible (f x)) \<Longrightarrow>
   never_infeasible (ebind m f)"
  by (cases m) (simp_all add: never_infeasible_def ebind_def)

lemma never_ethen:
  "never_infeasible m \<Longrightarrow> (m = Inr () \<Longrightarrow> never_infeasible k) \<Longrightarrow>
   never_infeasible (ethen m k)"
  by (cases m) (simp_all add: never_infeasible_def ethen_def)

lemma never_Inr: "never_infeasible (Inr x)"
  by (simp add: never_infeasible_def)

lemma never_int_range: "never_infeasible (validate_int_range v nm lo hi)"
  by (simp add: validate_int_range_def int_between_def ebind_def never_infeasible_def
        split: option.splits)

lemma never_bool: "never_infeasible (validate_bool v nm)"
  by (simp add: validate_bool_def never_infeasible_def split: pyval.splits)

lemma never_base: "never_infeasible (validate_base v nm)"
  by (simp add: validate_base_def never_infeasible_def)

lemma never_items:
  "(\<And>v nm. never_infeasible (f v nm)) \<Longrightarrow> never_infeasible (validate_items f name i xs)"
  by (induction xs arbitrary: i) (simp_all add: never_Inr never_ethen)

lemma never_ensure:
  assumes "\<And>v nm. never_infeasible (f v nm)" and "\<And>v nm. never_infeasible (g v nm)"
  shows "never_infeasible (ensure_scalar_or_list name v n (Some f) (Some g))"
proof (cases "\<exists>xs. v = VList xs")
  case True
  then obtain xs where v: "v = VList xs" by blast
  have "never_infeasible (ethen (validate_items g name 0 xs) (Inr (False, VList xs)))"
    by (intro never_ethen never_items assms(2) never_Inr)
  then show ?thesis
    by (simp add: v ensure_scalar_or_list_def never_infeasible_def)
next
  case False
  have "never_infeasible (ethen (f v name) (Inr (True, v)))"
    by (intro never_ethen assms(1) never_Inr)
  then show ?thesis using False
    by (cases v) (simp_all add: ensure_scalar_or_list_def)
qed

lemma ensure_value:
  "ensure_scalar_or_list name v n sv lv = Inr (b, w) \<Longrightarrow> w = v \<and> (b \<longleftrightarrow> (\<forall>xs. v \<noteq> VList xs))"
  by (cases v) (auto simp: ensure_scalar_or_list_def ethen_def split: if_splits sum.splits)

lemma never_sum_from: "never_infeasible (sum_from acc xs)"
  by (induction xs arbitrary: acc) (simp_all add: never_infeasible_def split: option.splits)

lemma never_lengths_total: "never_infeasible (validate_lengths_total v)"
  unfolding validate_lengths_total_def py_sum_def
  by (intro never_ebind never_sum_from)
     (simp_all add: py_iter_def never_infeasible_def split: pyval.splits)

lemma never_scalar_total: "never_infeasible (validate_scalar_total n v)"
  by (simp add: validate_scalar_total_def never_infeasible_def Let_def split: option.splits)

lemma never_iter: "never_infeasible (py_iter v)"
  by (simp add: py_iter_def never_infeasible_def split: pyval.splits)

lemma never_min_max: "never_infeasible (check_min_max i ps)"
proof (induction ps arbitrary: i)
  case Nil
  show ?case by (simp add: never_Inr)
next
  case (Cons p ps)
  obtain mn mx where p: "p = (mn, mx)" by (cases p)
  have "never_infeasible (py_gt mn mx)"
    by (simp add: py_gt_def never_infeasible_def split: option.splits)
  moreover have "\<And>gt. never_infeasible
      (if gt then Inl (ValueError (SeqMinGreaterMax i mn mx)) else check_min_max (Suc i) ps)"
    using Cons.IH by (simp add: never_infeasible_def)
  ultimately show ?case
    by (simp add: p never_ebind)
qed

lemma never_pgr: "never_infeasible (validate_pregenerated_randomization nd v)"
  by (simp add: validate_pregenerated_randomization_def never_infeasible_def
        split: pyval.splits option.splits)

lemma n_from_range: "validate_int_range (VInt n) nm lo hi = Inr () \<Longrightarrow> lo \<le> n \<and> n \<le> hi"
  by (simp add: validate_int_range_def int_between_def ebind_def split: if_splits)

lemma request_never_infeasible:
  "never_infeasible
     (generate_integer_sequences_request nd n len mn mx (VBool True) base pgr)"
  unfolding generate_integer_sequences_request_def
  apply (rule never_ethen, rule never_int_range)
  apply (rule never_ebind, rule never_ensure, rule never_int_range, rule never_int_range)
  apply (simp only: split_paired_all case_prod_conv)
  apply (rule never_ethen, simp add: never_scalar_total never_lengths_total)
  apply (rule never_ebind, rule never_ensure, rule never_int_range, rule never_int_range)
  apply (simp only: split_paired_all case_prod_conv)
  apply (rule never_ebind, rule never_ensure, rule never_int_range, rule never_int_range)
  apply (simp only: split_paired_all case_prod_conv)
  apply (rule never_ebind, rule never_iter)
  apply (rule never_ebind, rule never_iter)
  apply (rule never_ethen, rule never_min_max)
  apply (rule never_ebind, rule never_ensure, rule never_bool, rule never_bool)
  apply (simp only: split_paired_all case_prod_conv)
  apply (rule never_ebind, rule never_ensure, rule never_base, rule never_base)
  apply (simp only: split_paired_all case_prod_conv)
  apply (rule never_ebind, rule never_pgr)
  apply (rule never_ethen)
   apply (drule n_from_range)
   apply (drule ensure_value[where v="VBool True"])
   apply (simp add: feasible_scalar_true never_Inr)
  apply (rule never_Inr)
  done

text \<open>
  Claim C2. When \<open>replacement\<close> is the scalar \<open>True\<close> the feasibility checker returns normally
  whatever the lengths, minimums and maximums are and whichever of them are lists (so it has
  compared no domain size with a length), for every \<open>n \<ge> 0\<close>; and a call of
  \<open>generate_integer_sequences\<close> with that \<open>replacement\<close> never ends in an infeasible-sampling
  error.
\<close>

theorem scalar_true_replacement_never_infeasible:
  "(0 \<le> n \<longrightarrow>
      validate_no_replacement_feasible is_uniform len min_value max_value (VBool True) n = Inr ())
   \<and> never_infeasible
        (generate_integer_sequences_request nd n len min_value max_value (VBool True) base pgr)"
  using feasible_scalar_true request_never_infeasible by blast

theorem scalar_true_replacement_never_infeasible_witness:
  "validate_no_replacement_feasible False (VList [VInt 3, VInt 9]) (VList [VInt 0, VInt 0])
      (VList [VInt 1, VInt 1]) (VBool True) 2 = Inr ()
   \<and> validate_no_replacement_feasible True (VInt 3) (VInt 0) (VInt 1) (VBool True) 2 = Inr ()
   \<and> never_infeasible
        (generate_integer_sequences_request fullwidth_digit 2 (VList [VInt 3, VInt 9])
           (VInt 0) (VInt 1) (VBool True) (VInt 10) VNone)"
  using scalar_true_replacement_never_infeasible
          [where n = 2 and is_uniform = False and len = "VList [VInt 3, VInt 9]"
             and min_value = "VList [VInt 0, VInt 0]" and max_value = "VList [VInt 1, VInt 1]"]
        scalar_true_replacement_never_infeasible
          [where n = 2 and is_uniform = True and len = "VInt 3" and min_value = "VInt 0"
             and max_value = "VInt 1"]
        scalar_true_replacement_never_infeasible
          [where n = 2 and is_uniform = False and len = "VList [VInt 3, VInt 9]"
             and min_value = "VInt 0" and max_value = "VInt 1" and nd = fullwidth_digit
             and base = "VInt 10" and pgr = VNone]
  by simp

text \<open>Uniform scalar fields with \<open>replacement = False\<close>: every sequence has the same domain and
  length, and the first one decides.\<close>

lemma check_domain_repeat:
  "i < nat n \<Longrightarrow>
   check_domain msg (py_repeat l n) (py_repeat mn n) (py_repeat mx n) i =
     ebind (py_sub mx mn) (\<lambda>d.
     ebind (int_lt (d + 1) l) (\<lambda>small.
     if small then Inl (ValueError (msg i (d + 1) l)) else Inr ()))"
  by (simp add: check_domain_def py_index_repeat ebind_def Let_def)

lemma feasible_uniform_false:
  assumes n: "1 \<le> n" and l: "as_num l = Some lv" and a: "as_num mn = Some a"
    and b: "as_num mx = Some b"
  shows "validate_no_replacement_feasible True l mn mx (VBool False) n =
           (if b - a + 1 < lv
            then Inl (ValueError (ReplacementItemFalseInfeasible 0 (b - a + 1) l))
            else Inr ())"
proof -
  let ?body = "\<lambda>i. ebind (py_index (py_repeat (VBool False) n) i) (\<lambda>ri.
              if ri = VBool False
              then check_domain ReplacementItemFalseInfeasible (py_repeat l n)
                     (py_repeat mn n) (py_repeat mx n) i
              else Inr ())"
  have step: "\<And>i. i < nat n \<Longrightarrow> ?body i =
           (if b - a + 1 < lv
            then Inl (ValueError (ReplacementItemFalseInfeasible i (b - a + 1) l))
            else Inr ())"
    by (simp add: py_index_repeat check_domain_repeat ebind_def py_sub_def int_lt_def l a b)
  have loop: "for_each ?body (py_range n) =
           (if b - a + 1 < lv
            then Inl (ValueError (ReplacementItemFalseInfeasible 0 (b - a + 1) l))
            else Inr ())"
  proof (cases "b - a + 1 < lv")
    case True
    have "?body 0 = Inl (ValueError (ReplacementItemFalseInfeasible 0 (b - a + 1) l))"
      using step[of 0] n True by simp
    then show ?thesis using True n by (simp add: py_range_pos ethen_def)
  next
    case False
    have "for_each ?body (py_range n) = Inr ()"
      by (rule for_each_all_ok) (use step False in \<open>simp add: py_range_def\<close>)
    then show ?thesis using False by simp
  qed
  show ?thesis using n loop[unfolded py_repeat_def]
    by (simp add: validate_no_replacement_feasible_def Let_def py_len_def ebind_def
          py_repeat_def)
qed

lemma check_min_max_replicate:
  "py_gt a b = Inr False \<Longrightarrow> check_min_max i (replicate k (a, b)) = Inr ()"
  by (induction k arbitrary: i) (simp_all add: ebind_def)

lemma py_iter_repeat: "py_iter (py_repeat v n) = Inr (replicate (nat n) v)"
  by (simp add: py_iter_def py_repeat_def)

lemma ensure_scalar_int:
  "lo \<le> x \<Longrightarrow> x \<le> hi \<Longrightarrow>
   ensure_scalar_or_list name (VInt x) n (Some (\<lambda>v nm. validate_int_range v nm lo hi)) lv
     = Inr (True, VInt x)"
  by (simp add: ensure_scalar_or_list_def validate_int_range_def int_between_def ebind_def
        ethen_def)

lemma request_uniform:
  assumes n: "1 \<le> n" "n \<le> 1000" and l: "1 \<le> l" "n * l \<le> 10000"
    and a: "- 1000000000 \<le> a" and b: "b \<le> 1000000000" and ab: "a \<le> b"
  shows "generate_integer_sequences_request nd n (VInt l) (VInt a) (VInt b) (VBool False)
           (VInt 10) VNone =
         (if b - a + 1 < l
          then Inl (ValueError (ReplacementItemFalseInfeasible 0 (b - a + 1) (VInt l)))
          else Inr ([(''n'', VInt n), (''length'', VInt l), (''min'', VInt a), (''max'', VInt b),
                     (''replacement'', VBool False), (''base'', VInt 10)],
                    VInt 10, VBool False, VNone))"
proof -
  have nl: "1 \<le> n * l"
  proof -
    have "1 * 1 \<le> n * l" using n(1) l(1) by (intro mult_mono) simp_all
    then show ?thesis by simp
  qed
  have l10: "l \<le> 10000"
  proof -
    have "1 * l \<le> n * l" using n(1) l(1) by (intro mult_right_mono) simp_all
    then show ?thesis using l(2) by simp
  qed
  have e1: "validate_int_range (VInt n) ''n'' 1 1000 = Inr ()"
    using n by (simp add: validate_int_range_def int_between_def ebind_def)
  have e2: "validate_scalar_total n (VInt l) = Inr ()"
    using nl l by (simp add: validate_scalar_total_def Let_def)
  have e3: "check_min_max 0 (replicate (nat n) (VInt a, VInt b)) = Inr ()"
    using ab by (simp add: check_min_max_replicate py_gt_def)
  have e4: "ensure_scalar_or_list ''replacement'' (VBool False) n (Some validate_bool)
              (Some validate_bool) = Inr (True, VBool False)"
    by (simp add: ensure_scalar_or_list_def validate_bool_def ethen_def)
  have e5: "ensure_scalar_or_list ''base'' (VInt 10) n (Some validate_base)
              (Some validate_base) = Inr (True, VInt 10)"
    by (simp add: ensure_scalar_or_list_def validate_base_def ethen_def)
  have e6: "validate_pregenerated_randomization nd VNone = Inr VNone"
    by (simp add: validate_pregenerated_randomization_def)
  have e7: "validate_no_replacement_feasible True (VInt l) (VInt a) (VInt b) (VBool False) n =
           (if b - a + 1 < l
            then Inl (ValueError (ReplacementItemFalseInfeasible 0 (b - a + 1) (VInt l)))
            else Inr ())"
    using n(1) by (rule feasible_uniform_false) simp_all
  show ?thesis
    unfolding generate_integer_sequences_request_def
    using l(1) l10 a b ab
    by (simp add: e1 e2 e3 e4 e5 e6 e7 ensure_scalar_int as_list_def py_iter_repeat
          ethen_def ebind_def with_pgr_def)
qed

text \<open>
  Claim C3. With the uniform scalar fields \<open>min = 0\<close>, \<open>max = 4\<close>, \<open>replacement = False\<close> (and
  the default \<open>base\<close> and no randomization spec), for every \<open>n\<close> from 1 to 1000: with
  \<open>length = 5\<close> the feasibility check passes and the request is built; with \<open>length = 6\<close> the
  check, and with it the call, fails with the infeasible-sampling error for sequence 0, whose
  domain size 5 is smaller than 6.
\<close>

theorem uniform_feasibility_boundary:
  "1 \<le> n \<and> n \<le> 1000 \<longrightarrow>
     validate_no_replacement_feasible True (VInt 5) (VInt 0) (VInt 4) (VBool False) n = Inr ()
   \<and> validate_no_replacement_feasible True (VInt 6) (VInt 0) (VInt 4) (VBool False) n
       = Inl (ValueError (ReplacementItemFalseInfeasible 0 5 (VInt 6)))
   \<and> is_infeasible_error (ValueError (ReplacementItemFalseInfeasible 0 5 (VInt 6)))
   \<and> generate_integer_sequences_request nd n (VInt 5) (VInt 0) (VInt 4) (VBool False)
         (VInt 10) VNone
       = Inr ([(''n'', VInt n), (''length'', VInt 5), (''min'', VInt 0), (''max'', VInt 4),
               (''replacement'', VBool False), (''base'', VInt 10)],
              VInt 10, VBool False, VNone)
   \<and> generate_integer_sequences_request nd n (VInt 6) (VInt 0) (VInt 4) (VBool False)
         (VInt 10) VNone
       = Inl (ValueError (ReplacementItemFalseInfeasible 0 5 (VInt 6)))"
proof (intro impI)
  assume n: "1 \<le> n \<and> n \<le> 1000"
  have f5: "validate_no_replacement_feasible True (VInt 5) (VInt 0) (VInt 4) (VBool False) n
              = Inr ()"
    using n feasible_uniform_false[of n "VInt 5" 5 "VInt 0" 0 "VInt 4" 4] by simp
  have f6: "validate_no_replacement_feasible True (VInt 6) (VInt 0) (VInt 4) (VBool False) n
              = Inl (ValueError (ReplacementItemFalseInfeasible 0 5 (VInt 6)))"
    using n feasible_uniform_false[of n "VInt 6" 6 "VInt 0" 0 "VInt 4" 4] by simp
  have r5: "generate_integer_sequences_request nd n (VInt 5) (VInt 0) (VInt 4) (VBool False)
         (VInt 10) VNone
       = Inr ([(''n'', VInt n), (''length'', VInt 5), (''min'', VInt 0), (''max'', VInt 4),
               (''replacement'', VBool False), (''base'', VInt 10)],
              VInt 10, VBool False, VNone)"
    using n request_uniform[of n 5 0 4] by simp
  have r6: "generate_integer_sequences_request nd n (VInt 6) (VInt 0) (VInt 4) (VBool False)
         (VInt 10) VNone
       = Inl (ValueError (ReplacementItemFalseInfeasible 0 5 (VInt 6)))"
    using n request_uniform[of n 6 0 4] by simp
  show "validate_no_replacement_feasible True (VInt 5) (VInt 0) (VInt 4) (VBool False) n = Inr ()
   \<and> validate_no_replacement_feasible True (VInt 6) (VInt 0) (VInt 4) (VBool False) n
       = Inl (ValueError (ReplacementItemFalseInfeasible 0 5 (VInt 6)))
   \<and> is_infeasible_error (ValueError (ReplacementItemFalseInfeasible 0 5 (VInt 6)))
   \<and> generate_integer_sequences_request nd n (VInt 5) (VInt 0) (VInt 4) (VBool False)
         (VInt 10) VNone
       = Inr ([(''n'', VInt n), (''length'', VInt 5), (''min'', VInt 0), (''max'', VInt 4),
               (''replacement'', VBool False), (''base'', VInt 10)],
              VInt 10, VBool False, VNone)
   \<and> generate_integer_sequences_request nd n (VInt 6) (VInt 0) (VInt 4) (VBool False)
         (VInt 10) VNone
       = Inl (ValueError (ReplacementItemFalseInfeasible 0 5 (VInt 6)))"
    using f5 f6 r5 r6 by simp
qed

theorem uniform_feasibility_boundary_witness:
  "generate_integer_sequences_request fullwidth_digit 3 (VInt 5) (VInt 0) (VInt 4)
         (VBool False) (VInt 10) VNone
       = Inr ([(''n'', VInt 3), (''length'', VInt 5), (''min'', VInt 0), (''max'', VInt 4),
               (''replacement'', VBool False), (''base'', VInt 10)],
              VInt 10, VBool False, VNone)
   \<and> generate_integer_sequences_request fullwidth_digit 3 (VInt 6) (VInt 0) (VInt 4)
         (VBool False) (VInt 10) VNone
       = Inl (ValueError (ReplacementItemFalseInfeasible 0 5 (VInt 6)))"
  using uniform_feasibility_boundary[where n = 3 and nd = fullwidth_digit] by simp

subsection \<open>The cap on the sum of the lengths\<close>

lemma lengths_total_list_fails:
  assumes "sum_from 0 xs = Inr t" and "10000 < t"
  shows "isl (generate_integer_sequences_request nd n (VList xs) mn mx rep base pgr)"
proof -
  have tot: "validate_lengths_total (VList xs) = Inl (ValueError (LengthsTotalNotInRange t))"
    using assms by (simp add: validate_lengths_total_def py_sum_def py_iter_def ebind_def)
  show ?thesis
  proof (cases "ensure_scalar_or_list ''length'' (VList xs) n
              (Some (\<lambda>v nm. validate_int_range v nm 1 10000))
              (Some (\<lambda>v nm. validate_int_range v nm 1 10000))")
    case (Inl e)
    then show ?thesis
      by (simp add: generate_integer_sequences_request_def ethen_def ebind_def
            split: sum.splits)
  next
    case (Inr p)
    obtain b w where p: "p = (b, w)" by (cases p)
    from Inr p ensure_value have "w = VList xs" "\<not> b" by blast+
    with Inr p tot show ?thesis
      by (simp add: generate_integer_sequences_request_def ethen_def ebind_def
            split: sum.splits)
  qed
qed

lemma lengths_total_scalar_fails:
  assumes "as_num l = Some lv" and "10000 < n * lv"
  shows "isl (generate_integer_sequences_request nd n l mn mx rep base pgr)"
proof -
  have tot: "validate_scalar_total n l = Inl (ValueError (LengthsTotalNotInRange (n * lv)))"
    using assms by (simp add: validate_scalar_total_def Let_def)
  show ?thesis
  proof (cases "ensure_scalar_or_list ''length'' l n
              (Some (\<lambda>v nm. validate_int_range v nm 1 10000))
              (Some (\<lambda>v nm. validate_int_range v nm 1 10000))")
    case (Inl e)
    then show ?thesis
      by (simp add: generate_integer_sequences_request_def ethen_def ebind_def
            split: sum.splits)
  next
    case (Inr p)
    obtain b w where p: "p = (b, w)" by (cases p)
    from Inr p ensure_value[of "''length''" l] have "w = l" "b \<longleftrightarrow> (\<forall>xs. l \<noteq> VList xs)"
      by blast+
    moreover have "\<forall>xs. l \<noteq> VList xs" using assms(1) by auto
    ultimately show ?thesis using Inr p tot
      by (simp add: generate_integer_sequences_request_def ethen_def ebind_def
            split: sum.splits)
  qed
qed

lemma lengths_total_example_fails:
  "generate_integer_sequences_request nd 2 (VList [VInt 6000, VInt 5000]) mn mx rep base pgr
     = Inl (ValueError (LengthsTotalNotInRange 11000))"
  by (simp add: generate_integer_sequences_request_def ensure_scalar_or_list_def
        validate_int_range_def int_between_def validate_lengths_total_def py_sum_def
        py_iter_def str_nat_def ethen_def ebind_def)

lemma lengths_total_example_passes:
  "generate_integer_sequences_request nd 2 (VList [VInt 5000, VInt 5000])
      (VList [VInt 0, VInt 0]) (VList [VInt 9999, VInt 9999]) (VBool False) (VInt 10) VNone
     = Inr ([(''n'', VInt 2), (''length'', VList [VInt 5000, VInt 5000]),
             (''min'', VList [VInt 0, VInt 0]), (''max'', VList [VInt 9999, VInt 9999]),
             (''replacement'', VBool False), (''base'', VInt 10)],
            VInt 10, VBool False, VNone)"
  by (simp add: generate_integer_sequences_request_def ensure_scalar_or_list_def
        validate_int_range_def int_between_def validate_lengths_total_def py_sum_def
        py_iter_def ethen_def ebind_def as_list_def py_gt_def validate_bool_def
        validate_base_def validate_pregenerated_randomization_def
        validate_no_replacement_feasible_def py_range_def check_domain_def py_index_def
        py_sub_def int_lt_def with_pgr_def Let_def upt_conv_Cons numeral_2_eq_2)

text \<open>
  Claim C4. A call of \<open>generate_integer_sequences\<close> fails whenever the sum of the lengths
  exceeds 10000: the sum of a list of lengths, or \<open>n\<close> times a scalar length. With \<open>n = 2\<close>,
  \<open>length = [6000, 5000]\<close> fails with the total 11000, whatever the other arguments are;
  \<open>length = [5000, 5000]\<close> passes the length-sum validation, and the call goes through when the
  other fields are feasible lists.
\<close>

theorem lengths_total_cap:
  "(sum_from 0 xs = Inr t \<and> 10000 < t \<longrightarrow>
      isl (generate_integer_sequences_request nd n (VList xs) min_value max_value replacement
             base pgr))
   \<and> (as_num l = Some lv \<and> 10000 < n * lv \<longrightarrow>
      isl (generate_integer_sequences_request nd n l min_value max_value replacement base pgr))
   \<and> generate_integer_sequences_request nd 2 (VList [VInt 6000, VInt 5000]) min_value max_value
         replacement base pgr
       = Inl (ValueError (LengthsTotalNotInRange 11000))
   \<and> validate_lengths_total (VList [VInt 5000, VInt 5000]) = Inr ()
   \<and> generate_integer_sequences_request nd 2 (VList [VInt 5000, VInt 5000])
         (VList [VInt 0, VInt 0]) (VList [VInt 9999, VInt 9999]) (VBool False) (VInt 10) VNone
       = Inr ([(''n'', VInt 2), (''length'', VList [VInt 5000, VInt 5000]),
               (''min'', VList [VInt 0, VInt 0]), (''max'', VList [VInt 9999, VInt 9999]),
               (''replacement'', VBool False), (''base'', VInt 10)],
              VInt 10, VBool False, VNone)"
proof -
  have total_ok: "validate_lengths_total (VList [VInt 5000, VInt 5000]) = Inr ()"
    by (simp add: validate_lengths_total_def py_sum_def py_iter_def ebind_def)
  have list_case: "sum_from 0 xs = Inr t \<and> 10000 < t \<longrightarrow>
      isl (generate_integer_sequences_request nd n (VList xs) min_value max_value replacement
             base pgr)"
    by (auto intro: lengths_total_list_fails)
  have scalar_case: "as_num l = Some lv \<and> 10000 < n * lv \<longrightarrow>
      isl (generate_integer_sequences_request nd n l min_value max_value replacement base pgr)"
    by (auto intro: lengths_total_scalar_fails)
  show ?thesis
    by (intro conjI list_case scalar_case lengths_total_example_fails total_ok
          lengths_total_example_passes)
qed

theorem lengths_total_cap_witness:
  "isl (generate_integer_sequences_request fullwidth_digit 3
          (VList [VInt 4000, VInt 4000, VInt 4000]) (VInt 0) (VInt 9) (VBool True)
          (VInt 10) VNone)
   \<and> isl (generate_integer_sequences_request fullwidth_digit 1000 (VInt 11) (VInt 0) (VInt 9)
          (VBool True) (VInt 10) VNone)"
proof -
  have s: "sum_from 0 [VInt 4000, VInt 4000, VInt 4000] = Inr 12000" by simp
  show ?thesis
    using lengths_total_cap
            [where xs = "[VInt 4000, VInt 4000, VInt 4000]" and t = 12000 and n = 3
               and nd = fullwidth_digit and min_value = "VInt 0" and max_value = "VInt 9"
               and replacement = "VBool True" and base = "VInt 10" and pgr = VNone
               and l = "VInt 11" and lv = 11]
          lengths_total_cap
            [where xs = "[]" and t = 0 and n = 1000
               and nd = fullwidth_digit and min_value = "VInt 0" and max_value = "VInt 9"
               and replacement = "VBool True" and base = "VInt 10" and pgr = VNone
               and l = "VInt 11" and lv = 11]
    by (simp add: s)
qed

subsection \<open>Validation comes before the remote call\<close>

lemma integers_failure_makes_no_call:
  "generate_integers_request nd n mn mx rep base pgr = Inl e \<Longrightarrow>
   generate_integers nd rpc n mn mx rep base pgr = (Inl e, [])"
  by (simp add: generate_integers_def)

lemma integer_sequences_failure_makes_no_call:
  "generate_integer_sequences_request nd n len mn mx rep base pgr = Inl e \<Longrightarrow>
   generate_integer_sequences nd rpc n len mn mx rep base pgr = (Inl e, [])"
  by (simp add: generate_integer_sequences_def)

lemma integer_sequences_call_after_validation:
  "snd (generate_integer_sequences nd rpc n len mn mx rep base pgr) \<noteq> [] \<Longrightarrow>
   \<exists>r. generate_integer_sequences_request nd n len mn mx rep base pgr = Inr r"
  by (cases "generate_integer_sequences_request nd n len mn mx rep base pgr")
     (auto simp: generate_integer_sequences_def)

text \<open>
  Claim C9. \<open>generate_integers\<close> checks neither that a draw without replacement is possible nor
  that \<open>replacement\<close> is a boolean: with \<open>n\<close> in [1, 10000], \<open>min \<le> max\<close> both in
  [-10^9, 10^9], \<open>base\<close> in {2, 8, 10, 16} and a randomization spec that validates, the request
  is built and sent for every value of \<open>replacement\<close> whatsoever, as with \<open>n = 10\<close>, \<open>min = 1\<close>,
  \<open>max = 5\<close>, \<open>replacement = False\<close>.
\<close>

theorem generate_integers_unchecked_replacement:
  "1 \<le> n \<and> n \<le> 10000 \<and> - 1000000000 \<le> min_value \<and> min_value \<le> max_value \<and>
   max_value \<le> 1000000000 \<and> base \<in> {2, 8, 10, 16} \<and>
   validate_pregenerated_randomization nd pgr = Inr p \<longrightarrow>
     generate_integers_request nd n min_value max_value replacement base pgr
       = Inr (with_pgr [(''n'', VInt n), (''min'', VInt min_value), (''max'', VInt max_value),
                        (''replacement'', replacement), (''base'', VInt base)] p, p)
   \<and> snd (generate_integers nd rpc n min_value max_value replacement base pgr)
       = [(''generateIntegers'',
           with_pgr [(''n'', VInt n), (''min'', VInt min_value), (''max'', VInt max_value),
                     (''replacement'', replacement), (''base'', VInt base)] p)]"
proof (intro impI)
  assume a: "1 \<le> n \<and> n \<le> 10000 \<and> - 1000000000 \<le> min_value \<and> min_value \<le> max_value \<and>
   max_value \<le> 1000000000 \<and> base \<in> {2, 8, 10, 16} \<and>
   validate_pregenerated_randomization nd pgr = Inr p"
  then have req: "generate_integers_request nd n min_value max_value replacement base pgr
       = Inr (with_pgr [(''n'', VInt n), (''min'', VInt min_value), (''max'', VInt max_value),
                        (''replacement'', replacement), (''base'', VInt base)] p, p)"
    by (auto simp: generate_integers_request_def ebind_def)
  then show "generate_integers_request nd n min_value max_value replacement base pgr
       = Inr (with_pgr [(''n'', VInt n), (''min'', VInt min_value), (''max'', VInt max_value),
                        (''replacement'', replacement), (''base'', VInt base)] p, p)
   \<and> snd (generate_integers nd rpc n min_value max_value replacement base pgr)
       = [(''generateIntegers'',
           with_pgr [(''n'', VInt n), (''min'', VInt min_value), (''max'', VInt max_value),
                     (''replacement'', replacement), (''base'', VInt base)] p)]"
    by (simp add: generate_integers_def)
qed

theorem generate_integers_unchecked_replacement_witness:
  "generate_integers_request fullwidth_digit 10 1 5 (VBool False) 10 VNone
       = Inr ([(''n'', VInt 10), (''min'', VInt 1), (''max'', VInt 5),
               (''replacement'', VBool False), (''base'', VInt 10)], VNone)
   \<and> (\<forall>rpc. snd (generate_integers fullwidth_digit rpc 10 1 5 (VBool False) 10 VNone)
       = [(''generateIntegers'',
           [(''n'', VInt 10), (''min'', VInt 1), (''max'', VInt 5),
            (''replacement'', VBool False), (''base'', VInt 10)])])
   \<and> generate_integers_request fullwidth_digit 10 1 5 (VStr (ustr ''no'')) 10 VNone
       = Inr ([(''n'', VInt 10), (''min'', VInt 1), (''max'', VInt 5),
               (''replacement'', VStr (ustr ''no'')), (''base'', VInt 10)], VNone)"
proof -
  have p: "validate_pregenerated_randomization fullwidth_digit VNone = Inr VNone"
    by (simp add: validate_pregenerated_randomization_def)
  show ?thesis
    using generate_integers_unchecked_replacement
            [where n = 10 and min_value = 1 and max_value = 5 and base = 10
               and nd = fullwidth_digit and pgr = VNone and p = VNone
               and replacement = "VBool False"]
          generate_integers_unchecked_replacement
            [where n = 10 and min_value = 1 and max_value = 5 and base = 10
               and nd = fullwidth_digit and pgr = VNone and p = VNone
               and replacement = "VStr (ustr ''no'')"]
    by (simp add: p with_pgr_def)
qed

subsection \<open>Mixed scalar and list fields in the feasibility checker\<close>

text \<open>
  Claim C1. The checker replicates all four fields when \<open>length\<close> is a scalar and none of them
  otherwise, instead of each field by its own form. With \<open>n = 2\<close>, scalar \<open>length = 3\<close>,
  \<open>min = 0\<close>, \<open>max = 1\<close> and \<open>replacement = [False, False]\<close> both sequences are infeasible
  (domain size 2, length 3), yet the checker returns normally and the request is built; with
  \<open>length = [3, 3]\<close>, scalar \<open>min = 0\<close>, \<open>max = 1\<close> and \<open>replacement = False\<close> it ends in
  \<open>TypeError\<close>, not in the infeasible-sampling error.
\<close>

theorem feasibility_mixed_form_divergence:
  "spec_infeasible (VInt 3) (VInt 0) (VInt 1) (VList [VBool False, VBool False]) 2
   \<and> validate_no_replacement_feasible True (VInt 3) (VInt 0) (VInt 1)
        (VList [VBool False, VBool False]) 2 = Inr ()
   \<and> generate_integer_sequences_request nd 2 (VInt 3) (VInt 0) (VInt 1)
        (VList [VBool False, VBool False]) (VInt 10) VNone
       = Inr ([(''n'', VInt 2), (''length'', VInt 3), (''min'', VInt 0), (''max'', VInt 1),
               (''replacement'', VList [VBool False, VBool False]), (''base'', VInt 10)],
              VInt 10, VList [VBool False, VBool False], VNone)
   \<and> spec_infeasible (VList [VInt 3, VInt 3]) (VInt 0) (VInt 1) (VBool False) 2
   \<and> validate_no_replacement_feasible False (VList [VInt 3, VInt 3]) (VInt 0) (VInt 1)
        (VBool False) 2 = Inl TypeError
   \<and> generate_integer_sequences_request nd 2 (VList [VInt 3, VInt 3]) (VInt 0) (VInt 1)
        (VBool False) (VInt 10) VNone = Inl TypeError"
  by (simp add: spec_infeasible_def infeasible_sequence_def per_sequence_def
        generate_integer_sequences_request_def ensure_scalar_or_list_def
        validate_int_range_def int_between_def validate_lengths_total_def py_sum_def
        validate_scalar_total_def py_repeat_def py_len_def
        py_iter_def ethen_def ebind_def as_list_def py_gt_def validate_bool_def
        validate_base_def validate_pregenerated_randomization_def
        validate_no_replacement_feasible_def py_range_def check_domain_def py_index_def
        py_sub_def int_lt_def with_pgr_def Let_def upt_conv_Cons numeral_2_eq_2)

text \<open>
  Claim C7. An argument tuple that breaks the feasibility rule is not always stopped before
  the remote call: for the first input of claim C1 the operation calls \<open>rpc\<close>, once, with the
  infeasible request.
\<close>

theorem infeasible_request_reaches_rpc:
  "spec_infeasible (VInt 3) (VInt 0) (VInt 1) (VList [VBool False, VBool False]) 2
   \<and> snd (generate_integer_sequences nd rpc 2 (VInt 3) (VInt 0) (VInt 1)
            (VList [VBool False, VBool False]) (VInt 10) VNone)
       = [(''generateIntegerSequences'',
           [(''n'', VInt 2), (''length'', VInt 3), (''min'', VInt 0), (''max'', VInt 1),
            (''replacement'', VList [VBool False, VBool False]), (''base'', VInt 10)])]"
  by (simp add: spec_infeasible_def infeasible_sequence_def per_sequence_def
        generate_integer_sequences_def
        generate_integer_sequences_request_def ensure_scalar_or_list_def
        validate_int_range_def int_between_def
        validate_scalar_total_def py_repeat_def py_len_def
        py_iter_def ethen_def ebind_def as_list_def py_gt_def validate_bool_def
        validate_base_def validate_pregenerated_randomization_def
        validate_no_replacement_feasible_def py_range_def check_domain_def py_index_def
        py_sub_def int_lt_def with_pgr_def Let_def upt_conv_Cons numeral_2_eq_2)

subsection \<open>The error mapper\<close>

lemma join_cons: "join sep (x # xs) = x @ concat (map (\<lambda>c. sep @ c) xs)"
  by (induction xs arbitrary: x) simp_all

lemma clause_as_entry:
  "concat (map (\<lambda>c. ustr '' '' @ c) (clause cs d k pre post)) =
   (case map_of d k of Some v \<Rightarrow> ustr '' '' @ pre @ py_str cs v @ post | None \<Rightarrow> [])"
  by (simp add: clause_def split: option.splits)

lemma mapper_structure:
  "map_random_org_error cs code message data =
     ebind (hints_get code (fallback cs code message))
       (\<lambda>base_msg. Inr (base_msg @ appended_clauses cs data))"
proof (cases data)
  case None
  then show ?thesis
    by (simp add: map_random_org_error_def appended_clauses_def present_entries_def)
next
  case (Some d)
  show ?thesis
  proof (cases "d = []")
    case True
    with Some show ?thesis
      by (simp add: map_random_org_error_def appended_clauses_def present_entries_def)
  next
    case False
    with Some show ?thesis
      by (simp add: map_random_org_error_def appended_clauses_def present_entries_def
            join_cons clause_as_entry clause_text_def split: option.splits)
  qed
qed

lemma hints_keys:
  "map fst hints = [400, 401, 402, 403, 413, 429, 503, - 32600, - 32601, - 32602, - 32603]"
  by (simp add: hints_def)

lemma hints_distinct: "distinct (map snd hints)"
  by (simp add: hints_def ustr_def)

lemma num_hashable: "as_num code = Some k \<Longrightarrow> hashable code"
  by (cases code) (simp_all add: hashable_def)

lemma mapper_total:
  "hashable code \<Longrightarrow> \<exists>s. map_random_org_error cs code message data = Inr s"
  by (simp add: mapper_structure hints_get_def ebind_def split: option.splits)

lemma mapper_known:
  "as_num code = Some k \<Longrightarrow> map_of hints k = Some h \<Longrightarrow>
   map_random_org_error cs code message data = Inr (h @ appended_clauses cs data)"
  by (simp add: mapper_structure hints_get_def ebind_def num_hashable)

lemma mapper_unknown:
  assumes "hashable code"
    and "as_num code = None \<or> (\<exists>k. as_num code = Some k \<and> map_of hints k = None)"
  shows "map_random_org_error cs code message data
           = Inr (fallback cs code message @ appended_clauses cs data)"
proof -
  have "hints_get code (fallback cs code message) = Inr (fallback cs code message)"
  proof (cases "as_num code")
    case None
    with assms(1) show ?thesis by (simp add: hints_get_def)
  next
    case (Some k)
    with assms(2) have "map_of hints k = None" by simp
    with Some assms(1) show ?thesis by (simp add: hints_get_def)
  qed
  then show ?thesis by (simp add: mapper_structure ebind_def)
qed

lemma fallback_embeds:
  "sublist (py_str cs code) (fallback cs code message) \<and>
   suffix message (fallback cs code message)"
proof
  show "sublist (py_str cs code) (fallback cs code message)"
    unfolding fallback_def by (rule sublist_appendI)
  have "fallback cs code message =
          ([35843, 29992, 22833, 36133, 65288, 20195, 30721, 65306] @ py_str cs code @
           [65289, 12290, 21407, 22987, 20449, 24687, 65306]) @ message"
    by (simp add: fallback_def)
  then show "suffix message (fallback cs code message)"
    by (rule suffixI)
qed

lemma str_int_examples: "str_int 1500 = ustr ''1500''" "str_int (- 1) = ustr ''-1''"
  by (simp_all add: str_int_def digits.simps ustr_def)

lemma mapper_unhashable:
  "\<not> hashable code \<Longrightarrow> map_random_org_error cs code message data = Inl TypeError"
  by (simp add: mapper_structure hints_get_def ebind_def)

lemma mapper_rate_limit_example:
  "\<exists>h out. map_of hints 429 = Some h \<and>
     map_random_org_error cs (VInt 429) message (Some [(''advisoryDelay'', VInt 1500)]) = Inr out \<and>
     sublist h out \<and> sublist (ustr ''1500'') out"
proof -
  obtain h where h: "map_of hints 429 = Some h" by (simp add: hints_def)
  let ?a = "[24314, 35758, 31561, 24453] @ ustr '' ''"
  let ?b = "ustr '' ms '' @ [21518, 20877, 35797, 12290]"
  let ?out = "h @ ustr '' '' @ ?a @ ustr ''1500'' @ ?b"
  have cl: "appended_clauses cs (Some [(''advisoryDelay'', VInt 1500)])
              = ustr '' '' @ ?a @ ustr ''1500'' @ ?b"
    by (simp add: appended_clauses_def present_entries_def clause_text_def py_str_def
          str_int_examples)
  have out: "map_random_org_error cs (VInt 429) message (Some [(''advisoryDelay'', VInt 1500)])
               = Inr ?out"
    using mapper_known[of "VInt 429" 429 h cs message] h by (simp add: cl)
  have s1: "sublist h ?out" by (rule sublist_append_rightI)
  have "?out = (h @ ustr '' '' @ ?a) @ ustr ''1500'' @ ?b" by simp
  then have s2: "sublist (ustr ''1500'') ?out" by (simp only: sublist_appendI)
  from h out s1 s2 show ?thesis by blast
qed

lemma mapper_unknown_example:
  "\<exists>out. map_random_org_error cs (VInt (- 1)) message None = Inr out \<and>
         sublist (ustr ''-1'') out"
proof -
  have none: "map_of hints (- 1) = None" by (simp add: hints_def)
  have out: "map_random_org_error cs (VInt (- 1)) message None
               = Inr (fallback cs (VInt (- 1)) message)"
    using mapper_unknown[of "VInt (- 1)" cs message None] none
    by (simp add: hashable_def appended_clauses_def present_entries_def)
  have "sublist (py_str cs (VInt (- 1))) (fallback cs (VInt (- 1)) message)"
    using fallback_embeds by blast
  then have "sublist (ustr ''-1'') (fallback cs (VInt (- 1)) message)"
    by (simp add: py_str_def str_int_examples)
  with out show ?thesis by blast
qed

text \<open>
  Claim C6, as stated, asks for a string for every code. The table lookup hashes the code, so
  a code that is a list (or a dictionary) raises \<open>TypeError\<close>: here the code \<open>[]\<close>.
\<close>

theorem error_mapping_unhashable_code:
  "map_random_org_error empty_container_str (VList []) (ustr ''x'') None = Inl TypeError"
  by (simp add: map_random_org_error_def hints_get_def hashable_def ebind_def)

text \<open>
  Claim C6, amended. For every hashable code (\<open>None\<close>, a boolean, an integer, a string), every
  message and every optional data the mapper returns a string, and for a list or dictionary
  code it raises \<open>TypeError\<close>. A code equal to one of the eleven keys 400, 401, 402, 403, 413,
  429, 503, -32600, -32601, -32602, -32603 gets that key's hint, and the eleven hints are
  pairwise distinct; any other hashable code gets the fallback, which contains the printed
  code and ends with the message. After that text comes one clause for each of
  \<open>advisoryDelay\<close>, \<open>bitsLeft\<close>, \<open>requestsLeft\<close> present in the data, in this order. Code 429
  with \<open>advisoryDelay = 1500\<close> gives a string containing the rate-limit hint and \<open>1500\<close>; code
  -1 gives a string containing \<open>-1\<close>.
\<close>

theorem error_mapping_on_hashable_codes:
  "(hashable code \<longrightarrow> (\<exists>s. map_random_org_error cs code message data = Inr s))
   \<and> (\<not> hashable code \<longrightarrow> map_random_org_error cs code message data = Inl TypeError)
   \<and> (as_num code = Some k \<and> map_of hints k = Some h \<longrightarrow>
        map_random_org_error cs code message data = Inr (h @ appended_clauses cs data))
   \<and> map fst hints = [400, 401, 402, 403, 413, 429, 503, - 32600, - 32601, - 32602, - 32603]
   \<and> distinct (map snd hints)
   \<and> (hashable code \<and> (as_num code = None \<or> (\<exists>j. as_num code = Some j \<and> map_of hints j = None)) \<longrightarrow>
        map_random_org_error cs code message data
          = Inr (fallback cs code message @ appended_clauses cs data)
        \<and> sublist (py_str cs code) (fallback cs code message)
        \<and> suffix message (fallback cs code message))
   \<and> (\<exists>r out. map_of hints 429 = Some r \<and>
         map_random_org_error cs (VInt 429) message (Some [(''advisoryDelay'', VInt 1500)])
           = Inr out \<and>
         sublist r out \<and> sublist (ustr ''1500'') out)
   \<and> (\<exists>out. map_random_org_error cs (VInt (- 1)) message None = Inr out \<and>
         sublist (ustr ''-1'') out)"
proof -
  have total: "hashable code \<longrightarrow> (\<exists>s. map_random_org_error cs code message data = Inr s)"
    using mapper_total by blast
  have unhash: "\<not> hashable code \<longrightarrow> map_random_org_error cs code message data = Inl TypeError"
    using mapper_unhashable by blast
  have known: "as_num code = Some k \<and> map_of hints k = Some h \<longrightarrow>
        map_random_org_error cs code message data = Inr (h @ appended_clauses cs data)"
    using mapper_known by blast
  have other: "hashable code \<and> (as_num code = None \<or> (\<exists>j. as_num code = Some j \<and> map_of hints j = None)) \<longrightarrow>
        map_random_org_error cs code message data
          = Inr (fallback cs code message @ appended_clauses cs data)
        \<and> sublist (py_str cs code) (fallback cs code message)
        \<and> suffix message (fallback cs code message)"
    using mapper_unknown[of code cs message data] fallback_embeds[of cs code message] by blast
  show ?thesis
    by (intro conjI total unhash known hints_keys hints_distinct other
          mapper_rate_limit_example mapper_unknown_example)
qed

theorem error_mapping_on_hashable_codes_witness:
  "(\<exists>s. map_random_org_error empty_container_str (VInt 402) (ustr ''m'')
           (Some [(''requestsLeft'', VInt 0), (''bitsLeft'', VInt 7)]) = Inr s)
   \<and> (\<exists>h. map_of hints 402 = Some h \<and>
        map_random_org_error empty_container_str (VInt 402) (ustr ''m'')
           (Some [(''requestsLeft'', VInt 0), (''bitsLeft'', VInt 7)])
         = Inr (h @ ustr '' '' @ [24403, 21069] @ ustr '' bitsLeft=7'' @ [12290] @
                ustr '' '' @ [24403, 21069] @ ustr '' requestsLeft=0'' @ [12290]))
   \<and> map_random_org_error empty_container_str (VStr (ustr ''E42'')) (ustr ''m'') None
       = Inr ([35843, 29992, 22833, 36133, 65288, 20195, 30721, 65306] @ ustr ''E42'' @
              [65289, 12290, 21407, 22987, 20449, 24687, 65306] @ ustr ''m'')
   \<and> map_random_org_error empty_container_str (VDict []) (ustr ''m'') None = Inl TypeError"
proof -
  obtain h where h: "map_of hints 402 = Some h" by (simp add: hints_def)
  let ?d = "Some [(''requestsLeft'', VInt 0), (''bitsLeft'', VInt 7)]"
  have d7: "str_int 7 = ustr ''7''" "str_int 0 = ustr ''0''"
    by (simp_all add: str_int_def digits.simps ustr_def)
  have cl: "appended_clauses empty_container_str ?d =
              ustr '' '' @ [24403, 21069] @ ustr '' bitsLeft=7'' @ [12290] @
              ustr '' '' @ [24403, 21069] @ ustr '' requestsLeft=0'' @ [12290]"
    by (simp add: appended_clauses_def present_entries_def clause_text_def py_str_def d7 ustr_def)
  have cn: "appended_clauses empty_container_str None = []"
    by (simp add: appended_clauses_def present_entries_def)
  have fb: "fallback empty_container_str (VStr (ustr ''E42'')) (ustr ''m'') =
              [35843, 29992, 22833, 36133, 65288, 20195, 30721, 65306] @ ustr ''E42'' @
              [65289, 12290, 21407, 22987, 20449, 24687, 65306] @ ustr ''m''"
    by (simp add: fallback_def py_str_def)
  show ?thesis
    using error_mapping_on_hashable_codes
            [of "VInt 402" empty_container_str "ustr ''m''" ?d 402 h]
          error_mapping_on_hashable_codes
            [of "VStr (ustr ''E42'')" empty_container_str "ustr ''m''" None 0 "[]"]
          error_mapping_on_hashable_codes
            [of "VDict []" empty_container_str "ustr ''m''" None 0 "[]"]
          h
    by (simp add: hashable_def cl cn fb)
qed

subsection \<open>Fields of one common form\<close>

text \<open>Where the fields do have one common form, the checker and the rule agree.\<close>

lemma isl_for_each: "isl (for_each body xs) \<longleftrightarrow> list_ex (\<lambda>x. isl (body x)) xs"
  by (induction xs) (auto simp: ethen_def split: sum.splits)

lemma check_domain_lists:
  assumes "i < length ls" "i < length mns" "i < length mxs"
    and "as_num (ls ! i) = Some l" "as_num (mns ! i) = Some a" "as_num (mxs ! i) = Some b"
  shows "check_domain msg (VList ls) (VList mns) (VList mxs) i =
           (if b - a + 1 < l then Inl (ValueError (msg i (b - a + 1) (ls ! i))) else Inr ())"
  using assms
  by (simp add: check_domain_def py_index_def py_sub_def int_lt_def ebind_def Let_def)

lemma feasibility_agrees_all_lists:
  assumes n: "0 \<le> n"
    and len: "length ls = nat n" "length mns = nat n" "length mxs = nat n" "length rs = nat n"
    and num: "\<forall>x \<in> set ls. as_num x \<noteq> None" "\<forall>x \<in> set mns. as_num x \<noteq> None"
      "\<forall>x \<in> set mxs. as_num x \<noteq> None"
  shows "isl (validate_no_replacement_feasible False (VList ls) (VList mns) (VList mxs)
                (VList rs) n)
         \<longleftrightarrow> spec_infeasible (VList ls) (VList mns) (VList mxs) (VList rs) n"
proof -
  let ?body = "\<lambda>i. ebind (py_index (VList rs) i) (\<lambda>ri.
                 if ri = VBool False
                 then check_domain ReplacementItemFalseInfeasible (VList ls) (VList mns)
                        (VList mxs) i
                 else Inr ())"
  have step: "isl (?body i) \<longleftrightarrow>
                infeasible_sequence (VList ls) (VList mns) (VList mxs) (VList rs) n i"
    if i: "i < nat n" for i
  proof -
    from i len num obtain l a b where
      v: "as_num (ls ! i) = Some l" "as_num (mns ! i) = Some a" "as_num (mxs ! i) = Some b"
      by (metis nth_mem option.exhaust)
    have "check_domain ReplacementItemFalseInfeasible (VList ls) (VList mns) (VList mxs) i =
            (if b - a + 1 < l
             then Inl (ValueError (ReplacementItemFalseInfeasible i (b - a + 1) (ls ! i)))
             else Inr ())"
      using i len v by (intro check_domain_lists) simp_all
    then show ?thesis
      using i len v
      by (simp add: py_index_def ebind_def infeasible_sequence_def per_sequence_def)
  qed
  have "isl (for_each ?body (py_range n)) \<longleftrightarrow>
          list_ex (infeasible_sequence (VList ls) (VList mns) (VList mxs) (VList rs) n)
            (py_range n)"
    unfolding isl_for_each list_ex_iff using step by (auto simp: py_range_def)
  then show ?thesis
    using n len
    by (simp add: validate_no_replacement_feasible_def py_len_def ebind_def
          spec_infeasible_def)
qed

lemma feasibility_agrees_all_scalars:
  assumes n: "1 \<le> n"
    and num: "as_num l = Some lv" "as_num mn = Some a" "as_num mx = Some b"
  shows "isl (validate_no_replacement_feasible True l mn mx (VBool r) n)
         \<longleftrightarrow> spec_infeasible l mn mx (VBool r) n"
proof -
  have notlist: "\<forall>xs. l \<noteq> VList xs" "\<forall>xs. mn \<noteq> VList xs" "\<forall>xs. mx \<noteq> VList xs"
    using num by auto
  have per: "per_sequence l n = replicate (nat n) l" "per_sequence mn n = replicate (nat n) mn"
    "per_sequence mx n = replicate (nat n) mx"
    "per_sequence (VBool r) n = replicate (nat n) (VBool r)"
    using notlist by (cases l; cases mn; cases mx; simp add: per_sequence_def)+
  have seq: "infeasible_sequence l mn mx (VBool r) n i \<longleftrightarrow> \<not> r \<and> b - a + 1 < lv"
    if "i < nat n" for i
    using that num by (simp add: infeasible_sequence_def per)
  have spec: "spec_infeasible l mn mx (VBool r) n \<longleftrightarrow> \<not> r \<and> b - a + 1 < lv"
  proof -
    have zero: "0 < nat n" using n by simp
    show ?thesis
    proof
      assume "spec_infeasible l mn mx (VBool r) n"
      then obtain i where "i < nat n" "infeasible_sequence l mn mx (VBool r) n i"
        by (auto simp: spec_infeasible_def list_ex_iff py_range_def)
      then show "\<not> r \<and> b - a + 1 < lv" using seq by blast
    next
      assume "\<not> r \<and> b - a + 1 < lv"
      then have "infeasible_sequence l mn mx (VBool r) n 0" using seq[OF zero] by blast
      moreover have "0 \<in> set (py_range n)" using zero by (simp add: py_range_def)
      ultimately show "spec_infeasible l mn mx (VBool r) n"
        unfolding spec_infeasible_def list_ex_iff by blast
    qed
  qed
  show ?thesis
  proof (cases r)
    case True
    then show ?thesis using n spec by (simp add: feasible_scalar_true)
  next
    case False
    then show ?thesis
      using spec feasible_uniform_false[OF n num] by simp
  qed
qed

subsection \<open>Validated fields are numbers\<close>

text \<open>What passes the range validator is an integer or a boolean, so the comparisons
  \<open>mn > mx\<close> and the conversion \<open>int(length_v)\<close> of \<open>generate_integer_sequences\<close> only ever see
  numbers.\<close>

lemma int_range_is_number: "validate_int_range v nm lo hi = Inr () \<Longrightarrow> as_num v \<noteq> None"
  by (auto simp: validate_int_range_def int_between_def ebind_def split: option.splits)

lemma int_range_items_are_numbers:
  "validate_items (\<lambda>v nm. validate_int_range v nm lo hi) name i xs = Inr () \<Longrightarrow>
   \<forall>x \<in> set xs. as_num x \<noteq> None"
proof (induction xs arbitrary: i)
  case Nil
  show ?case by simp
next
  case (Cons x xs)
  from Cons.prems have x: "validate_int_range x (name @ ''['' @ str_nat i @ '']'') lo hi = Inr ()"
    and rest: "validate_items (\<lambda>v nm. validate_int_range v nm lo hi) name (Suc i) xs = Inr ()"
    by (auto simp: ethen_def split: sum.splits)
  from x have "as_num x \<noteq> None" by (rule int_range_is_number)
  with Cons.IH[OF rest] show ?case by simp
qed

end
